theory Spec2Isabelle
  imports Complex_Main "HOL-Library.Sublist"
begin

section \<open>JavaScript values used by the server\<close>

text \<open>
  A \<open>Date\<close> object holds a time value (milliseconds since the epoch) or is an
  invalid date, whose time value is NaN.  Relational operators on two dates compare the
  time values; every comparison with NaN is false.
\<close>

datatype jsdate = Date int | InvalidDate

fun date_ge :: "jsdate \<Rightarrow> jsdate \<Rightarrow> bool" where
  "date_ge (Date x) (Date y) = (x \<ge> y)"
| "date_ge _ _ = False"

fun date_le :: "jsdate \<Rightarrow> jsdate \<Rightarrow> bool" where
  "date_le (Date x) (Date y) = (x \<le> y)"
| "date_le _ _ = False"

text \<open>
  The values a request body or a \<open>jsonb\<close> column can hold.  Numbers are the finite
  ones; an object is the list of its own properties.
\<close>

datatype jsval =
    JUndefined
  | JNull
  | JBool bool
  | JNum real
  | JStr string
  | JDate jsdate
  | JArr "jsval list"
  | JObj "(string \<times> jsval) list"

text \<open>A field that may be missing (\<open>undefined\<close>), \<open>null\<close>, or hold a value.\<close>

datatype 'a nullable = Absent | IsNull | Present 'a

section \<open>server/storage.ts: the in-memory storage\<close>

text \<open>
  A JavaScript \<open>Map\<close> keeps its entries in insertion order with unique keys:
  \<open>set\<close> on a present key replaces the value in place, on a new key appends.
\<close>

type_synonym ('k, 'v) jsmap = "('k \<times> 'v) list"

fun map_set :: "'k \<Rightarrow> 'v \<Rightarrow> ('k, 'v) jsmap \<Rightarrow> ('k, 'v) jsmap" where
  "map_set k v [] = [(k, v)]"
| "map_set k v (p # ps) = (if fst p = k then (k, v) # ps else p # map_set k v ps)"

definition map_get :: "('k, 'v) jsmap \<Rightarrow> 'k \<Rightarrow> 'v option" where
  "map_get m k = map_of m k"

definition map_values :: "('k, 'v) jsmap \<Rightarrow> 'v list" where
  "map_values m = map snd m"

record strategy =
  st_id :: string
  st_name :: string
  st_type :: string
  st_description :: "string option"
  st_parameters :: jsval
  st_isActive :: "bool option"
  st_createdAt :: "jsdate option"

record insert_strategy =
  ins_name :: string
  ins_type :: string
  ins_description :: "string option"
  ins_parameters :: jsval
  ins_isActive :: "bool option"

record backtest =
  bt_id :: string
  bt_ticker :: string
  bt_startDate :: jsdate
  bt_endDate :: jsdate
  bt_initialCapital :: real
  bt_commission :: "real nullable"
  bt_strategyConfig :: jsval
  bt_results :: "jsval option"
  bt_status :: string
  bt_createdAt :: jsdate

record insert_backtest =
  ib_ticker :: string
  ib_startDate :: jsdate
  ib_endDate :: jsdate
  ib_initialCapital :: real
  ib_commission :: "real nullable"
  ib_strategyConfig :: jsval

record market_data =
  md_id :: string
  md_ticker :: string
  md_date :: jsdate
  md_open :: real
  md_high :: real
  md_low :: real
  md_close :: real
  md_volume :: int
  md_adjClose :: real

record mem_storage =
  strategies :: "(string, strategy) jsmap"
  backtests :: "(string, backtest) jsmap"
  marketData :: "(string, market_data) jsmap"

text \<open>
  \<open>randomUUID()\<close> and \<open>new Date()\<close> are supplied by the environment: the
  functions that call them take the fresh id and the current time as arguments.
\<close>

definition getStrategies :: "mem_storage \<Rightarrow> strategy list" where
  "getStrategies s = filter (\<lambda>x. st_isActive x = Some True) (map_values (strategies s))"

definition getStrategy :: "mem_storage \<Rightarrow> string \<Rightarrow> strategy option" where
  "getStrategy s i = map_get (strategies s) i"

definition createStrategy ::
  "string \<Rightarrow> jsdate \<Rightarrow> mem_storage \<Rightarrow> insert_strategy \<Rightarrow> strategy \<times> mem_storage" where
  "createStrategy uuid now s ins =
     (let newStrategy = \<lparr> st_id = uuid, st_name = ins_name ins, st_type = ins_type ins,
                           st_description = ins_description ins,
                           st_parameters = ins_parameters ins,
                           st_isActive = ins_isActive ins, st_createdAt = Some now \<rparr>
      in (newStrategy, s\<lparr> strategies := map_set uuid newStrategy (strategies s) \<rparr>))"

definition getBacktest :: "mem_storage \<Rightarrow> string \<Rightarrow> backtest option" where
  "getBacktest s i = map_get (backtests s) i"

definition createBacktest ::
  "string \<Rightarrow> jsdate \<Rightarrow> mem_storage \<Rightarrow> insert_backtest \<Rightarrow> backtest \<times> mem_storage" where
  "createBacktest uuid now s b =
     (let newBacktest = \<lparr> bt_id = uuid, bt_ticker = ib_ticker b,
                           bt_startDate = ib_startDate b, bt_endDate = ib_endDate b,
                           bt_initialCapital = ib_initialCapital b,
                           bt_commission = ib_commission b,
                           bt_strategyConfig = ib_strategyConfig b,
                           bt_results = None, bt_status = ''pending'',
                           bt_createdAt = now \<rparr>
      in (newBacktest, s\<lparr> backtests := map_set uuid newBacktest (backtests s) \<rparr>))"

text \<open>
  \<open>updateBacktest(id, partial)\<close>: the route handlers pass partial records with a
  \<open>status\<close> and, on success, \<open>results\<close>; the other fields keep their values.
\<close>

record backtest_patch =
  patch_status :: "string option"
  patch_results :: "jsval option"

definition apply_patch :: "backtest \<Rightarrow> backtest_patch \<Rightarrow> backtest" where
  "apply_patch existing p =
     (let b1 = (case patch_status p of None \<Rightarrow> existing
                | Some v \<Rightarrow> existing\<lparr> bt_status := v \<rparr>)
      in (case patch_results p of None \<Rightarrow> b1 | Some r \<Rightarrow> b1\<lparr> bt_results := Some r \<rparr>))"

definition updateBacktest ::
  "mem_storage \<Rightarrow> string \<Rightarrow> backtest_patch \<Rightarrow> backtest option \<times> mem_storage" where
  "updateBacktest s i p =
     (case map_get (backtests s) i of
        None \<Rightarrow> (None, s)
      | Some existing \<Rightarrow>
          (let updated = apply_patch existing p
           in (Some updated, s\<lparr> backtests := map_set i updated (backtests s) \<rparr>)))"

definition getMarketData ::
  "mem_storage \<Rightarrow> string \<Rightarrow> jsdate option \<Rightarrow> jsdate option \<Rightarrow> market_data list" where
  "getMarketData s ticker startDate endDate =
     (let data = filter (\<lambda>d. md_ticker d = ticker) (map_values (marketData s))
      in (case startDate of
            None \<Rightarrow> data
          | Some a \<Rightarrow>
              (case endDate of
                 None \<Rightarrow> data
               | Some b \<Rightarrow> filter (\<lambda>d. date_ge (md_date d) a \<and> date_le (md_date d) b) data)))"

definition empty_storage :: mem_storage where
  "empty_storage = \<lparr> strategies = [], backtests = [], marketData = [] \<rparr>"

text \<open>Two strategies to insert, alike but for \<open>isActive\<close>.\<close>

definition sample_active :: insert_strategy where
  "sample_active =
     \<lparr> ins_name = ''RSI'', ins_type = ''technical'',
       ins_description = Some ''Momentum oscillator strategy'',
       ins_parameters = JObj [(''period'', JNum 14)], ins_isActive = Some True \<rparr>"

definition sample_inactive :: insert_strategy where
  "sample_inactive =
     \<lparr> ins_name = ''RSI'', ins_type = ''technical'',
       ins_description = Some ''Momentum oscillator strategy'',
       ins_parameters = JObj [(''period'', JNum 14)], ins_isActive = Some False \<rparr>"

section \<open>server/routes.ts: the route handlers\<close>

text \<open>
  What the handlers take from the JavaScript runtime: the value of
  \<open>path.join(process.cwd(), "server/services")\<close>, the conversion of a number to a
  string in a template literal, \<open>Date.prototype.toISOString\<close> on a valid time value,
  \<open>JSON.stringify\<close> and \<open>JSON.parse\<close> (\<open>None\<close> when it throws).
\<close>

record runtime =
  services_path :: string
  num_to_string :: "real \<Rightarrow> string"
  toISOString :: "int \<Rightarrow> string"
  json_stringify :: "jsval \<Rightarrow> string"
  json_parse :: "string \<Rightarrow> jsval option"

datatype js_error = ReferenceError string | RangeError | TypeError | SyntaxError

datatype body =
    ErrorMsg string
  | ErrorVal jsval
  | BacktestBody backtest
  | JsonBody jsval

datatype response = Response nat body

text \<open>
  What handling a request has done when the handler returns: the response sent (if any
  yet), the storage, the child processes started with \<open>spawn(command, args)\<close>, and
  whether a listener for the child's \<open>close\<close> event has been registered.
\<close>

record outcome =
  sent :: "response option"
  store :: mem_storage
  spawned :: "(string \<times> string list) list"
  close_listener :: bool

definition chr_nl :: string where "chr_nl = [CHR 0x0A]"
definition chr_sq :: string where "chr_sq = [CHR 0x27]"
definition chr_dq :: string where "chr_dq = [CHR 0x22]"
definition chr_bs :: string where "chr_bs = [CHR 0x5C]"

text \<open>A template literal renders a missing value as \<open>undefined\<close>.\<close>

definition template_str :: "string option \<Rightarrow> string" where
  "template_str v = (case v of None \<Rightarrow> ''undefined'' | Some x \<Rightarrow> x)"

definition template_num :: "runtime \<Rightarrow> real nullable \<Rightarrow> string" where
  "template_num rt v =
     (case v of Absent \<Rightarrow> ''undefined'' | IsNull \<Rightarrow> ''null'' | Present x \<Rightarrow> num_to_string rt x)"

subsection \<open>GET /api/market-data/:ticker\<close>

text \<open>
  The text given to \<open>python3 -c\<close>: the template literal of the handler, with the route
  parameter \<open>ticker\<close> and the query parameters \<open>start_date\<close>, \<open>end_date\<close> spliced in.
\<close>

definition market_data_script ::
  "runtime \<Rightarrow> string \<Rightarrow> string option \<Rightarrow> string option \<Rightarrow> string" where
  \<open>market_data_script rt ticker start_date end_date =
     chr_nl @ ''import sys'' @ chr_nl
     @ ''import os'' @ chr_nl
     @ ''sys.path.append('' @ chr_sq @ services_path rt @ chr_sq @ '')'' @ chr_nl
     @ ''os.chdir('' @ chr_sq @ services_path rt @ chr_sq @ '')'' @ chr_nl
     @ ''from data_service import DataService'' @ chr_nl
     @ ''import json'' @ chr_nl
     @ chr_nl
     @ ''try:'' @ chr_nl
     @ ''    data = DataService.fetch_stock_data('' @ chr_sq @ ticker @ chr_sq @ '', ''
         @ chr_sq @ template_str start_date @ chr_sq @ '', '' @ chr_sq @ template_str end_date @ chr_sq
         @ '')'' @ chr_nl
     @ ''    print(json.dumps(data))'' @ chr_nl
     @ ''except Exception as e:'' @ chr_nl
     @ ''    import traceback'' @ chr_nl
     @ ''    print(json.dumps({'' @ chr_dq @ ''error'' @ chr_dq @ '': str(e), '' @ chr_dq @ ''traceback'' @ chr_dq
         @ '': traceback.format_exc()}))'' @ chr_nl
     @ ''      ''\<close>

text \<open>
  The handler spawns the child and registers its listeners; the response is sent by the
  \<open>close\<close> listener.
\<close>

definition market_data_route ::
  "runtime \<Rightarrow> mem_storage \<Rightarrow> string \<Rightarrow> string option \<Rightarrow> string option \<Rightarrow> outcome" where
  "market_data_route rt s ticker start_date end_date =
     \<lparr> sent = None, store = s,
       spawned = [(''python3'', [''-c'', market_data_script rt ticker start_date end_date])],
       close_listener = True \<rparr>"

subsection \<open>POST /api/backtests\<close>

text \<open>
  \<open>insertBacktestSchema\<close> is derived by \<open>createInsertSchema\<close>, a library function,
  from the picked columns of the \<open>backtests\<close> table.  The handler is given the
  schema's \<open>parse\<close> as \<open>schema_parse\<close>, with \<open>None\<close> where it throws.
\<close>

definition create_backtest_route ::
  "(jsval \<Rightarrow> insert_backtest option) \<Rightarrow> string \<Rightarrow> jsdate \<Rightarrow> mem_storage \<Rightarrow> jsval
     \<Rightarrow> response \<times> mem_storage" where
  "create_backtest_route schema_parse uuid now s req_body =
     (case schema_parse req_body of
        None \<Rightarrow> (Response 400 (ErrorMsg ''Invalid backtest configuration''), s)
      | Some validatedData \<Rightarrow>
          (let (backtest, s') = createBacktest uuid now s validatedData
           in (Response 200 (BacktestBody backtest), s')))"

subsection \<open>POST /api/backtests/:id/run\<close>

text \<open>
  \<open>date.toISOString().split("T")[0]\<close>: \<open>toISOString\<close> throws a \<open>RangeError\<close> on an
  invalid date.
\<close>

definition iso_day :: "runtime \<Rightarrow> jsdate \<Rightarrow> js_error + string" where
  "iso_day rt d =
     (case d of
        InvalidDate \<Rightarrow> Inl RangeError
      | Date t \<Rightarrow> Inr (takeWhile (\<lambda>c. c \<noteq> CHR ''T'') (toISOString rt t)))"

text \<open>\<open>text.replace(/"/g, '\\"')\<close>: a backslash before every double quote.\<close>

definition escape_quotes :: "string \<Rightarrow> string" where
  "escape_quotes t = concat (map (\<lambda>c. if c = CHR 0x22 then chr_bs @ chr_dq else [c]) t)"

definition run_script_text :: "runtime \<Rightarrow> backtest \<Rightarrow> string \<Rightarrow> string \<Rightarrow> string" where
  \<open>run_script_text rt backtest start_day end_day =
     chr_nl @ ''import sys'' @ chr_nl
     @ ''sys.path.append('' @ chr_sq @ services_path rt @ chr_sq @ '')'' @ chr_nl
     @ ''from backtest_service import BacktestService'' @ chr_nl
     @ ''import json'' @ chr_nl
     @ chr_nl
     @ ''config = {'' @ chr_nl
     @ ''    '' @ chr_dq @ ''ticker'' @ chr_dq @ '': '' @ chr_dq @ bt_ticker backtest @ chr_dq @ '','' @ chr_nl
     @ ''    '' @ chr_dq @ ''start_date'' @ chr_dq @ '': '' @ chr_dq @ start_day @ chr_dq @ '','' @ chr_nl
     @ ''    '' @ chr_dq @ ''end_date'' @ chr_dq @ '': '' @ chr_dq @ end_day @ chr_dq @ '','' @ chr_nl
     @ ''    '' @ chr_dq @ ''initial_capital'' @ chr_dq @ '': ''
         @ num_to_string rt (bt_initialCapital backtest) @ '','' @ chr_nl
     @ ''    '' @ chr_dq @ ''commission'' @ chr_dq @ '': ''
         @ template_num rt (bt_commission backtest) @ '','' @ chr_nl
     @ ''    '' @ chr_dq @ ''strategy_config'' @ chr_dq @ '': ''
         @ escape_quotes (json_stringify rt (bt_strategyConfig backtest)) @ chr_nl
     @ ''}'' @ chr_nl
     @ chr_nl
     @ ''try:'' @ chr_nl
     @ ''    service = BacktestService()'' @ chr_nl
     @ ''    results = service.run_backtest(config)'' @ chr_nl
     @ ''    print(json.dumps(results))'' @ chr_nl
     @ ''except Exception as e:'' @ chr_nl
     @ ''    print(json.dumps({'' @ chr_dq @ ''error'' @ chr_dq @ '': str(e)}))'' @ chr_nl
     @ ''      ''\<close>

definition run_script :: "runtime \<Rightarrow> backtest \<Rightarrow> js_error + string" where
  "run_script rt backtest =
     (case iso_day rt (bt_startDate backtest) of
        Inl e \<Rightarrow> Inl e
      | Inr start_day \<Rightarrow>
          (case iso_day rt (bt_endDate backtest) of
             Inl e \<Rightarrow> Inl e
           | Inr end_day \<Rightarrow> Inr (run_script_text rt backtest start_day end_day)))"

text \<open>
  The identifiers the handler can refer to: its own bindings, the bindings of the
  bundled module, and the globals of the runtime the bundle uses.  Evaluating any other
  identifier throws a \<open>ReferenceError\<close>.
\<close>

definition run_handler_bindings :: "string list" where
  "run_handler_bindings =
     [''app2'', ''req'', ''res'', ''id'', ''backtest'', ''pythonScript'', ''output'', ''error'']"

definition module_bindings :: "string list" where
  "module_bindings =
     [''express2'', ''createServer'', ''randomUUID'', ''MemStorage'', ''storage'', ''spawn'',
      ''path'', ''sql'', ''pgTable'', ''text'', ''varchar'', ''timestamp'', ''jsonb'', ''real'',
      ''integer'', ''boolean'', ''createInsertSchema'', ''users'', ''strategies'', ''backtests'',
      ''trades'', ''marketData'', ''insertUserSchema'', ''insertStrategySchema'',
      ''insertBacktestSchema'', ''insertTradeSchema'', ''insertMarketDataSchema'',
      ''registerRoutes'', ''express'', ''fs'', ''path3'', ''createViteServer'', ''createLogger'',
      ''defineConfig'', ''react'', ''path2'', ''loadReplitPlugins'', ''vite_config_default'',
      ''nanoid'', ''viteLogger'', ''log'', ''setupVite'', ''serveStatic'', ''app'']"

definition runtime_globals :: "string list" where
  "runtime_globals =
     [''process'', ''JSON'', ''Date'', ''Map'', ''Array'', ''Error'', ''console'', ''parseInt'']"

definition resolve :: "string \<Rightarrow> js_error + unit" where
  "resolve name =
     (if name \<in> set (run_handler_bindings @ module_bindings @ runtime_globals)
      then Inr () else Inl (ReferenceError name))"

definition status_patch :: "string \<Rightarrow> backtest_patch" where
  "status_patch v = \<lparr> patch_status = Some v, patch_results = None \<rparr>"

text \<open>
  The handler up to its return.  The child is bound to \<open>pythonScript\<close>; the listeners
  are then registered on \<open>python\<close>.  Whatever is thrown inside the handler's \<open>try\<close>
  is answered by its \<open>catch\<close> with status 500.
\<close>

definition run_backtest_route :: "runtime \<Rightarrow> mem_storage \<Rightarrow> string \<Rightarrow> outcome" where
  "run_backtest_route rt s i =
     (case getBacktest s i of
        None \<Rightarrow>
          \<lparr> sent = Some (Response 404 (ErrorMsg ''Backtest not found'')), store = s,
            spawned = [], close_listener = False \<rparr>
      | Some backtest \<Rightarrow>
          (let s1 = snd (updateBacktest s i (status_patch ''running''))
           in (case run_script rt backtest of
                 Inl e \<Rightarrow>
                   \<lparr> sent = Some (Response 500 (ErrorMsg ''Failed to run backtest'')),
                     store = s1, spawned = [], close_listener = False \<rparr>
               | Inr script \<Rightarrow>
                   (case resolve ''python'' of
                      Inl e \<Rightarrow>
                        \<lparr> sent = Some (Response 500 (ErrorMsg ''Failed to run backtest'')),
                          store = s1, spawned = [(''python3'', [''-c'', script])],
                          close_listener = False \<rparr>
                    | Inr _ \<Rightarrow>
                        \<lparr> sent = None, store = s1,
                          spawned = [(''python3'', [''-c'', script])],
                          close_listener = True \<rparr>))))"

text \<open>
  The \<open>close\<close> listener written in the handler, run with the child's exit code
  (\<open>None\<close> for \<open>null\<close>) and what it wrote to stdout and stderr.
\<close>

fun truthy :: "jsval \<Rightarrow> bool" where
  "truthy JUndefined = False"
| "truthy JNull = False"
| "truthy (JBool b) = b"
| "truthy (JNum x) = (x \<noteq> 0)"
| "truthy (JStr x) = (x \<noteq> [])"
| "truthy _ = True"

text \<open>Reading a property of an object: \<open>undefined\<close> when the object has no such key.\<close>

definition get_prop :: "(string \<times> jsval) list \<Rightarrow> string \<Rightarrow> jsval" where
  "get_prop ps k = (case map_of ps k of None \<Rightarrow> JUndefined | Some v \<Rightarrow> v)"

text \<open>\<open>results.error\<close>: a \<open>TypeError\<close> on \<open>null\<close>, \<open>undefined\<close> on a value without the key.\<close>

fun get_error :: "jsval \<Rightarrow> js_error + jsval" where
  "get_error JNull = Inl TypeError"
| "get_error JUndefined = Inl TypeError"
| "get_error (JObj ps) = Inr (get_prop ps ''error'')"
| "get_error _ = Inr JUndefined"

definition run_on_close ::
  "runtime \<Rightarrow> mem_storage \<Rightarrow> string \<Rightarrow> int option \<Rightarrow> string \<Rightarrow> string \<Rightarrow> response \<times> mem_storage" where
  "run_on_close rt s i code output error =
     (let failed = snd (updateBacktest s i (status_patch ''failed''))
      in if code \<noteq> Some 0
         then (Response 500 (ErrorMsg (if error \<noteq> [] then error else ''Backtest failed'')), failed)
         else (case json_parse rt output of
                 None \<Rightarrow> (Response 500 (ErrorMsg ''Failed to parse backtest results''), failed)
               | Some results \<Rightarrow>
                   (case get_error results of
                      Inl e \<Rightarrow> (Response 500 (ErrorMsg ''Failed to parse backtest results''), failed)
                    | Inr err \<Rightarrow>
                        if truthy err then (Response 400 (ErrorVal err), failed)
                        else (Response 200 (JsonBody results),
                              snd (updateBacktest s i
                                \<lparr> patch_status = Some ''completed'',
                                  patch_results = Some results \<rparr>)))))"

text \<open>
  One request to the run endpoint, from its arrival to the response: the handler, and
  then the \<open>close\<close> listener if the handler registered it.
\<close>

definition run_backtest_request ::
  "runtime \<Rightarrow> mem_storage \<Rightarrow> string \<Rightarrow> int option \<Rightarrow> string \<Rightarrow> string \<Rightarrow> outcome" where
  "run_backtest_request rt s i code output error =
     (let h = run_backtest_route rt s i
      in if close_listener h
         then (let (r, s') = run_on_close rt (store h) i code output error
               in h\<lparr> sent := Some r, store := s' \<rparr>)
         else h)"

definition status_of :: "mem_storage \<Rightarrow> string \<Rightarrow> string option" where
  "status_of s i = map_option bt_status (getBacktest s i)"

subsection \<open>Sample inputs\<close>

text \<open>
  A runtime whose conversions are the JavaScript ones on the values of the examples
  below, a well-formed configuration, and the storage after creating it under id \<open>b1\<close>.
\<close>

definition sample_runtime :: runtime where
  "sample_runtime =
     \<lparr> services_path = ''/app/server/services'',
       num_to_string = (\<lambda>x. if x = 100000 then ''100000'' else if x = - 1 then ''-1''
                            else if x = 0 then ''0'' else ''0.001''),
       toISOString = (\<lambda>t. if t = 0 then ''1970-01-01T00:00:00.000Z''
                          else ''1970-01-02T00:00:00.000Z''),
       json_stringify = (\<lambda>v. ''[]''),
       json_parse = (\<lambda>t. if t = ''{}'' then Some (JObj []) else None) \<rparr>"

definition sample_config :: insert_backtest where
  "sample_config =
     \<lparr> ib_ticker = ''AAPL'', ib_startDate = Date 0, ib_endDate = Date 86400000,
       ib_initialCapital = 100000, ib_commission = Present (1 / 1000),
       ib_strategyConfig = JArr [] \<rparr>"

definition sample_backtest :: backtest where
  "sample_backtest =
     \<lparr> bt_id = ''b1'', bt_ticker = ''AAPL'', bt_startDate = Date 0,
       bt_endDate = Date 86400000, bt_initialCapital = 100000,
       bt_commission = Present (1 / 1000), bt_strategyConfig = JArr [], bt_results = None,
       bt_status = ''pending'', bt_createdAt = Date 0 \<rparr>"

definition sample_storage :: mem_storage where
  "sample_storage = snd (createBacktest ''b1'' (Date 0) empty_storage sample_config)"

section \<open>The results dashboard (client, ResultsDashboard component)\<close>

text \<open>
  The \<open>Trade\<close> interface of \<open>client/src/types/trading.ts\<close>.  Strings are modelled
  as byte strings and numbers as the finite reals.
\<close>

record trade =
  entry_date :: string
  exit_date :: string
  side :: string
  entry_price :: real
  exit_price :: real
  quantity :: real
  pnl :: real
  return_pct :: real

text \<open>\<open>s.includes(part)\<close>: \<open>part\<close> occurs in \<open>s\<close> as a contiguous piece.\<close>

definition str_includes :: "string \<Rightarrow> string \<Rightarrow> bool" where
  "str_includes s part = sublist part s"

text \<open>\<open>toLowerCase\<close>, on the ASCII letters.\<close>

definition lower_char :: "char \<Rightarrow> char" where
  "lower_char c =
     (let n = (of_char c :: nat) in if 65 \<le> n \<and> n \<le> 90 then char_of (n + 32) else c)"

definition toLowerCase :: "string \<Rightarrow> string" where
  "toLowerCase s = map lower_char s"

definition matchesFilter :: "string \<Rightarrow> trade \<Rightarrow> bool" where
  "matchesFilter tradeFilter t \<longleftrightarrow>
     tradeFilter = [] \<or> str_includes (entry_date t) tradeFilter
     \<or> str_includes (toLowerCase (side t)) (toLowerCase tradeFilter)"

definition matchesType :: "string \<Rightarrow> trade \<Rightarrow> bool" where
  "matchesType tradeType t \<longleftrightarrow>
     tradeType = ''all'' \<or> (tradeType = ''winners'' \<and> pnl t > 0)
     \<or> (tradeType = ''losers'' \<and> pnl t < 0)"

definition filteredTrades :: "string \<Rightarrow> string \<Rightarrow> trade list \<Rightarrow> trade list" where
  "filteredTrades tradeFilter tradeType trades =
     filter (\<lambda>t. matchesFilter tradeFilter t \<and> matchesType tradeType t) trades"

text \<open>
  \<open>handleExportCSV\<close>.  A row is an array of strings and numbers; \<open>join\<close> converts
  the numbers with the runtime's number-to-string conversion \<open>str\<close>.
\<close>

datatype cell = Text string | Number real

definition render :: "(real \<Rightarrow> string) \<Rightarrow> cell \<Rightarrow> string" where
  "render str c = (case c of Text x \<Rightarrow> x | Number x \<Rightarrow> str x)"

fun join :: "string \<Rightarrow> string list \<Rightarrow> string" where
  "join sep [] = []"
| "join sep [x] = x"
| "join sep (x # y # ys) = x @ sep @ join sep (y # ys)"

definition csv_header :: "string list" where
  "csv_header = [''Date'', ''Type'', ''Entry'', ''Exit'', ''PnL'', ''Return %'']"

definition csv_row :: "trade \<Rightarrow> cell list" where
  "csv_row t =
     [Text (entry_date t), Text (side t), Number (entry_price t), Number (exit_price t),
      Number (pnl t), Number (return_pct t)]"

definition csv_lines :: "(real \<Rightarrow> string) \<Rightarrow> trade list \<Rightarrow> string list" where
  "csv_lines str shown =
     join '','' csv_header # map (\<lambda>t. join '','' (map (render str) (csv_row t))) shown"

definition handleExportCSV ::
  "(real \<Rightarrow> string) \<Rightarrow> string \<Rightarrow> string \<Rightarrow> trade list \<Rightarrow> string" where
  "handleExportCSV str tradeFilter tradeType trades =
     join chr_nl (csv_lines str (filteredTrades tradeFilter tradeType trades))"

text \<open>The field names of the Trade record, in the order of its declaration.\<close>

definition trade_fields :: "string list" where
  "trade_fields = [''entry_date'', ''exit_date'', ''side'', ''entry_price'', ''exit_price'',
                   ''quantity'', ''pnl'', ''return_pct'']"

text \<open>Sample trades: one that wins, one that loses.\<close>

definition mk_trade :: "string \<Rightarrow> string \<Rightarrow> real \<Rightarrow> real \<Rightarrow> real \<Rightarrow> trade" where
  "mk_trade d sd en ex q =
     \<lparr> entry_date = d, exit_date = d, side = sd, entry_price = en, exit_price = ex,
       quantity = q, pnl = (ex - en) * q, return_pct = (ex - en) / en \<rparr>"

definition win_trade :: trade where
  "win_trade = mk_trade ''2024-01-03'' ''LONG'' 100 110 10"

definition loss_trade :: trade where
  "loss_trade = mk_trade ''2024-01-04'' ''LONG'' 100 95 10"

text \<open>A number-to-string conversion that is the JavaScript one on 100, 110 and 0.1.\<close>

definition sample_str :: "real \<Rightarrow> string" where
  "sample_str x =
     (if x = 100 then ''100'' else if x = 110 then ''110'' else if x = 1 / 10 then ''0.1''
      else ''0'')"

section \<open>The backtest engine\<close>

text \<open>
  The engine runs in the Python services (\<open>server/services/backtest_service.py\<close>),
  which are not among the sources.  This section follows the specification.
\<close>

text \<open>Modelled from the spec: the signals of a SignalSeries (engine code missing).\<close>

datatype signal = LONG_ENTRY | SHORT_ENTRY | EXIT | HOLD

text \<open>Modelled from the spec: the side of a Position (engine code missing).\<close>

datatype position_side = LONG | SHORT | FLAT

text \<open>Modelled from the spec: a PriceBar (engine code missing).\<close>

record price_bar =
  pb_date :: int
  pb_open :: real
  pb_high :: real
  pb_low :: real
  pb_close :: real
  pb_volume :: real

text \<open>Modelled from the spec: the Position of the Execution Simulator (engine code missing).\<close>

record position =
  pos_side :: position_side
  pos_quantity :: int
  pos_entry_price :: real
  pos_entry_date :: int

text \<open>Modelled from the spec: the Trade record of the ledger (engine code missing).\<close>

record ledger_trade =
  lt_entry_date :: int
  lt_exit_date :: int
  lt_side :: position_side
  lt_entry_price :: real
  lt_exit_price :: real
  lt_quantity :: int
  lt_pnl :: real
  lt_return_pct :: real

text \<open>
  Modelled from the spec: the per-bar log of the Execution Simulator (engine code
  missing).  \<open>Filled i p\<close>: the signal of bar \<open>i\<close> was executed at price \<open>p\<close>;
  \<open>Skipped i\<close>: the entry signalled at bar \<open>i\<close> was skipped for lack of capital;
  \<open>ForcedClose p\<close>: the open position was closed at the last bar's close \<open>p\<close>.
\<close>

datatype log_entry = Filled nat real | Skipped nat | ForcedClose real

text \<open>
  Modelled from the spec: the state of one run of the Execution Simulator (engine code
  missing): cash, position, trade ledger, equity series and per-bar log.
\<close>

record sim_state =
  cash :: real
  pos :: position
  ledger :: "ledger_trade list"
  equity :: "(int \<times> real) list"
  bar_log :: "log_entry list"

text \<open>Modelled from the spec: no open position (engine code missing).\<close>

definition flat_position :: position where
  "flat_position =
     \<lparr> pos_side = FLAT, pos_quantity = 0, pos_entry_price = 0, pos_entry_date = 0 \<rparr>"

text \<open>Modelled from the spec: the initial state, FLAT with the initial capital (engine code missing).\<close>

definition initial_state :: "real \<Rightarrow> sim_state" where
  "initial_state cap =
     \<lparr> cash = cap, pos = flat_position, ledger = [], equity = [], bar_log = [] \<rparr>"

text \<open>Modelled from the spec: the direction sign of a side (engine code missing).\<close>

fun direction_sign :: "position_side \<Rightarrow> real" where
  "direction_sign LONG = 1"
| "direction_sign SHORT = - 1"
| "direction_sign FLAT = 0"

text \<open>
  Modelled from the spec: opening a position on the signal of bar \<open>i\<close>, filled at the open
  of the next bar \<open>nb\<close> (engine code missing).  The quantity is
  \<open>floor(available_capital / fill_price)\<close>; with less than one unit the entry is
  skipped and logged; the commission \<open>rate * fill * quantity\<close> is taken from cash.
\<close>

definition open_position ::
  "real \<Rightarrow> nat \<Rightarrow> position_side \<Rightarrow> price_bar \<Rightarrow> sim_state \<Rightarrow> sim_state" where
  "open_position rate i sd nb st =
     (let fill = pb_open nb; q = \<lfloor>cash st / fill\<rfloor>
      in if q < 1 then st\<lparr> bar_log := bar_log st @ [Skipped i] \<rparr>
         else st\<lparr> cash := cash st - direction_sign sd * fill * of_int q
                             - rate * fill * of_int q,
                  pos := \<lparr> pos_side = sd, pos_quantity = q, pos_entry_price = fill,
                           pos_entry_date = pb_date nb \<rparr>,
                  bar_log := bar_log st @ [Filled i fill] \<rparr>)"

text \<open>
  Modelled from the spec: closing the open position at price \<open>px\<close> on date \<open>d\<close> and
  emitting its Trade (engine code missing), with
  \<open>pnl = (exit - entry) * quantity * sign - commission(entry) - commission(exit)\<close> and
  \<open>return_pct = pnl / (entry * quantity)\<close>.
\<close>

definition close_at :: "real \<Rightarrow> int \<Rightarrow> real \<Rightarrow> sim_state \<Rightarrow> sim_state" where
  "close_at rate d px st =
     (let p = pos st; q = of_int (pos_quantity p); sg = direction_sign (pos_side p);
          profit = (px - pos_entry_price p) * q * sg
                     - rate * pos_entry_price p * q - rate * px * q
      in st\<lparr> cash := cash st + sg * px * q - rate * px * q,
              pos := flat_position,
              ledger := ledger st @
                [\<lparr> lt_entry_date = pos_entry_date p, lt_exit_date = d, lt_side = pos_side p,
                   lt_entry_price = pos_entry_price p, lt_exit_price = px,
                   lt_quantity = pos_quantity p, lt_pnl = profit,
                   lt_return_pct = profit / (pos_entry_price p * q) \<rparr>] \<rparr>)"

text \<open>
  Modelled from the spec: closing on the signal of bar \<open>i\<close>, filled at the open of the
  next bar \<open>nb\<close> (engine code missing).
\<close>

definition close_position :: "real \<Rightarrow> nat \<Rightarrow> price_bar \<Rightarrow> sim_state \<Rightarrow> sim_state" where
  "close_position rate i nb st =
     (close_at rate (pb_date nb) (pb_open nb) st)
       \<lparr> bar_log := bar_log st @ [Filled i (pb_open nb)] \<rparr>"

text \<open>
  Modelled from the spec: the transition rule of the Execution Simulator for the signal
  of bar \<open>i\<close> and the next bar \<open>nb\<close> (engine code missing).  An entry from FLAT opens;
  EXIT or an entry in the opposite direction closes; HOLD, or a signal in the direction
  already held, changes nothing.
\<close>

fun execute ::
  "real \<Rightarrow> nat \<Rightarrow> position_side \<Rightarrow> signal \<Rightarrow> price_bar \<Rightarrow> sim_state \<Rightarrow> sim_state" where
  "execute rate i FLAT LONG_ENTRY nb st = open_position rate i LONG nb st"
| "execute rate i FLAT SHORT_ENTRY nb st = open_position rate i SHORT nb st"
| "execute rate i LONG EXIT nb st = close_position rate i nb st"
| "execute rate i LONG SHORT_ENTRY nb st = close_position rate i nb st"
| "execute rate i SHORT EXIT nb st = close_position rate i nb st"
| "execute rate i SHORT LONG_ENTRY nb st = close_position rate i nb st"
| "execute rate i _ _ nb st = st"

text \<open>
  Modelled from the spec: the EquityPoint of a bar, cash plus the signed value of the open
  position at the bar's close (engine code missing).
\<close>

definition mark :: "price_bar \<Rightarrow> sim_state \<Rightarrow> sim_state" where
  "mark b st =
     st\<lparr> equity := equity st @
       [(pb_date b, cash st + direction_sign (pos_side (pos st))
                       * of_int (pos_quantity (pos st)) * pb_close b)] \<rparr>"

text \<open>
  Modelled from the spec: the sequential replay (engine code missing).  The signal of bar
  \<open>i\<close> is paired with bar \<open>i + 1\<close>; the signal of the last bar has no next bar and is
  not executed.
\<close>

fun run_bars ::
  "real \<Rightarrow> nat \<Rightarrow> price_bar list \<Rightarrow> signal list \<Rightarrow> sim_state \<Rightarrow> sim_state" where
  "run_bars rate i (nb # rest) (s # ss) st =
     run_bars rate (Suc i) rest ss (mark nb (execute rate i (pos_side (pos st)) s nb st))"
| "run_bars rate i _ _ st = st"

text \<open>
  Modelled from the spec: the terminal rule, a position still open is closed at the last
  bar's close (engine code missing).
\<close>

definition force_close :: "real \<Rightarrow> price_bar \<Rightarrow> sim_state \<Rightarrow> sim_state" where
  "force_close rate lb st =
     (if pos_side (pos st) = FLAT then st
      else (close_at rate (pb_date lb) (pb_close lb) st)
             \<lparr> bar_log := bar_log st @ [ForcedClose (pb_close lb)] \<rparr>)"

text \<open>Modelled from the spec: one run of the Execution Simulator (engine code missing).\<close>

definition simulate :: "price_bar list \<Rightarrow> signal list \<Rightarrow> real \<Rightarrow> real \<Rightarrow> sim_state" where
  "simulate bars sigs cap rate =
     (case bars of
        [] \<Rightarrow> initial_state cap
      | b0 # rest \<Rightarrow>
          force_close rate (last bars)
            (run_bars rate 0 rest sigs (mark b0 (initial_state cap))))"

text \<open>Modelled from the spec: the error taxonomy of the engine (engine code missing).\<close>

datatype engine_error =
    ConfigurationError string
  | DataError string
  | StrategyRuntimeError string

text \<open>
  Modelled from the spec: a strategy configuration (engine code missing): its id, the
  verdict of its own parameter validation, and its signal function, which is given the
  bars up to and including the current one and emits a signal or raises with a message.
\<close>

record strategy_config =
  sc_id :: string
  sc_params_valid :: bool
  sc_signal :: "price_bar list \<Rightarrow> string + signal"

text \<open>
  Modelled from the spec: a BacktestResult (engine code missing), without the metrics,
  which the Metrics Calculator derives from the equity series and the trades.
\<close>

record backtest_result =
  br_strategy_id :: string
  br_equity_series :: "(int \<times> real) list"
  br_trades :: "ledger_trade list"

text \<open>
  Modelled from the spec: collecting the per-bar signals (engine code missing); the first
  bar on which the strategy raises aborts the generation.
\<close>

fun collect_signals :: "(string + signal) list \<Rightarrow> string + signal list" where
  "collect_signals [] = Inr []"
| "collect_signals (Inl e # rest) = Inl e"
| "collect_signals (Inr s # rest) =
     (case collect_signals rest of Inl e \<Rightarrow> Inl e | Inr ss \<Rightarrow> Inr (s # ss))"

text \<open>
  Modelled from the spec: \<open>generate_signals\<close> (engine code missing): the signal of bar
  \<open>i\<close> is computed from bars \<open>0..i\<close>.
\<close>

definition generate_signals :: "strategy_config \<Rightarrow> price_bar list \<Rightarrow> string + signal list" where
  "generate_signals sc bars =
     collect_signals (map (\<lambda>i. sc_signal sc (take (Suc i) bars)) [0..<length bars])"

text \<open>Modelled from the spec: a bar with positive prices (engine code missing).\<close>

definition positive_prices :: "price_bar \<Rightarrow> bool" where
  "positive_prices b \<longleftrightarrow> 0 < pb_open b \<and> 0 < pb_high b \<and> 0 < pb_low b \<and> 0 < pb_close b"

text \<open>
  Modelled from the spec: the checks on the inputs shared by all strategies of a run
  (engine code missing): ConfigurationError for non-positive capital or commission or an
  empty price series, DataError for dates that are not strictly increasing or prices
  that are not positive.
\<close>

definition check_inputs :: "price_bar list \<Rightarrow> real \<Rightarrow> real \<Rightarrow> engine_error option" where
  "check_inputs bars cap rate =
     (if cap \<le> 0 then Some (ConfigurationError ''non-positive capital'')
      else if rate \<le> 0 then Some (ConfigurationError ''non-positive commission'')
      else if bars = [] then Some (ConfigurationError ''empty price series'')
      else if \<not> sorted_wrt (<) (map pb_date bars)
        then Some (DataError ''non-monotonic or duplicate dates'')
      else if \<not> list_all positive_prices bars then Some (DataError ''non-positive prices'')
      else None)"

text \<open>
  Modelled from the spec: the run of one strategy on checked inputs (engine code missing):
  parameter validation, signal generation, simulation.
\<close>

definition run_strategy ::
  "price_bar list \<Rightarrow> strategy_config \<Rightarrow> real \<Rightarrow> real \<Rightarrow> engine_error + backtest_result" where
  "run_strategy bars sc cap rate =
     (if \<not> sc_params_valid sc then Inl (ConfigurationError ''invalid strategy parameters'')
      else (case generate_signals sc bars of
              Inl msg \<Rightarrow> Inl (StrategyRuntimeError msg)
            | Inr sigs \<Rightarrow>
                (let st = simulate bars sigs cap rate
                 in Inr \<lparr> br_strategy_id = sc_id sc, br_equity_series = equity st,
                          br_trades = ledger st \<rparr>)))"

text \<open>Modelled from the spec: \<open>run_backtest\<close> of the Orchestrator (engine code missing).\<close>

definition run_backtest ::
  "price_bar list \<Rightarrow> strategy_config \<Rightarrow> real \<Rightarrow> real \<Rightarrow> engine_error + backtest_result" where
  "run_backtest bars sc cap rate =
     (case check_inputs bars cap rate of
        Some e \<Rightarrow> Inl e
      | None \<Rightarrow> run_strategy bars sc cap rate)"

text \<open>
  Modelled from the spec: \<open>compare\<close> of the Orchestrator (engine code missing): every
  strategy is run on the same series and capital, independently, and the outcomes are
  returned in input order; a failure of one strategy is its entry of the list.
\<close>

definition compare ::
  "price_bar list \<Rightarrow> strategy_config list \<Rightarrow> real \<Rightarrow> real
     \<Rightarrow> engine_error + (engine_error + backtest_result) list" where
  "compare bars scs cap rate =
     (case check_inputs bars cap rate of
        Some e \<Rightarrow> Inl e
      | None \<Rightarrow> Inr (map (\<lambda>sc. run_strategy bars sc cap rate) scs))"

text \<open>Modelled from the spec: a strategy raises on a series (engine code missing).\<close>

definition raises :: "strategy_config \<Rightarrow> price_bar list \<Rightarrow> bool" where
  "raises sc bars \<longleftrightarrow> isl (generate_signals sc bars)"

subsection \<open>The trade statistics of the Metrics Calculator\<close>

text \<open>
  Modelled from the spec: the two policies the specification allows for a trade with zero
  pnl (the Metrics Calculator's code is missing): excluded from the winners and from the
  losers, or assigned to the losers.
\<close>

datatype zero_pnl_policy = ExcludedFromBoth | AssignedToLosing

text \<open>Modelled from the spec: a winning pnl (Metrics Calculator missing).\<close>

definition is_winner :: "real \<Rightarrow> bool" where
  "is_winner x \<longleftrightarrow> 0 < x"

text \<open>Modelled from the spec: a losing pnl under a policy (Metrics Calculator missing).\<close>

definition is_loser :: "zero_pnl_policy \<Rightarrow> real \<Rightarrow> bool" where
  "is_loser pol x \<longleftrightarrow> x < 0 \<or> (pol = AssignedToLosing \<and> x = 0)"

text \<open>
  Modelled from the spec: the trades counted in \<open>total_trades\<close> (Metrics Calculator
  missing).  The specification states \<open>winning_trades + losing_trades = total_trades\<close>
  for either policy, so a trade excluded from both classes is not counted in the total.
\<close>

definition is_counted :: "zero_pnl_policy \<Rightarrow> real \<Rightarrow> bool" where
  "is_counted pol x \<longleftrightarrow> pol = AssignedToLosing \<or> x \<noteq> 0"

text \<open>
  Modelled from the spec: an average that resolves to 0 on no values, as every ratio of
  the Metrics Calculator resolves a division by zero to a sentinel (code missing).
\<close>

definition mean :: "real list \<Rightarrow> real" where
  "mean xs = (if xs = [] then 0 else sum_list xs / real (length xs))"

text \<open>
  Modelled from the spec: the fields of the Metrics record that are derived from the trade
  ledger (Metrics Calculator missing).  \<open>profit_factor\<close> is \<open>None\<close> where it is
  undefined.  The fields derived from the equity series (total return, Sharpe ratio,
  maximal drawdown, final value, CAGR) do not classify trades and are left out.
\<close>

record metrics =
  total_trades :: nat
  winning_trades :: nat
  losing_trades :: nat
  win_rate :: real
  avg_win :: real
  avg_loss :: real
  profit_factor :: "real option"

text \<open>
  Modelled from the spec: the trade statistics (Metrics Calculator missing):
  \<open>win_rate = winning_trades / total_trades\<close>, 0 without trades;
  \<open>profit_factor = sum(pnl of winners) / abs(sum(pnl of losers))\<close>, undefined when the
  losers' pnl sums to zero, as it does without losers.
\<close>

definition trade_metrics :: "zero_pnl_policy \<Rightarrow> ledger_trade list \<Rightarrow> metrics" where
  "trade_metrics pol trades =
     (let pnls = map lt_pnl trades;
          wins = filter is_winner pnls;
          losses = filter (is_loser pol) pnls;
          total = length (filter (is_counted pol) pnls)
      in \<lparr> total_trades = total,
           winning_trades = length wins,
           losing_trades = length losses,
           win_rate = (if total = 0 then 0 else real (length wins) / real total),
           avg_win = mean wins,
           avg_loss = mean losses,
           profit_factor = (if sum_list losses = 0 then None
                            else Some (sum_list wins / \<bar>sum_list losses\<bar>)) \<rparr>)"

subsection \<open>Sample series and strategies\<close>

definition mk_bar :: "int \<Rightarrow> real \<Rightarrow> real \<Rightarrow> price_bar" where
  "mk_bar d op cl =
     \<lparr> pb_date = d, pb_open = op, pb_high = max op cl, pb_low = min op cl, pb_close = cl,
       pb_volume = 1000 \<rparr>"

definition sample_bars :: "price_bar list" where
  "sample_bars = [mk_bar 1 99 98, mk_bar 2 100 105, mk_bar 3 110 108, mk_bar 4 107 106]"

text \<open>The trade of a long entry signalled at the first bar and an exit at the second.\<close>

definition sample_trade :: ledger_trade where
  "sample_trade =
     \<lparr> lt_entry_date = 2, lt_exit_date = 3, lt_side = LONG, lt_entry_price = 100,
       lt_exit_price = 110, lt_quantity = 10, lt_pnl = 79, lt_return_pct = 79 / 1000 \<rparr>"

definition hold_strategy :: strategy_config where
  "hold_strategy = \<lparr> sc_id = ''hold'', sc_params_valid = True, sc_signal = (\<lambda>h. Inr HOLD) \<rparr>"

definition buy_first_strategy :: strategy_config where
  "buy_first_strategy =
     \<lparr> sc_id = ''buy-first'', sc_params_valid = True,
       sc_signal = (\<lambda>h. Inr (if length h = 1 then LONG_ENTRY else HOLD)) \<rparr>"

definition failing_strategy :: strategy_config where
  "failing_strategy =
     \<lparr> sc_id = ''model'', sc_params_valid = True,
       sc_signal = (\<lambda>h. if length h < 2 then Inr HOLD else Inl ''model failed'') \<rparr>"


text \<open>A ledger of a winning trade, a losing trade and a trade that breaks even.\<close>

definition pnl_trade :: "real \<Rightarrow> ledger_trade" where
  "pnl_trade x = sample_trade\<lparr> lt_pnl := x, lt_return_pct := x / 1000 \<rparr>"

definition sample_ledger :: "ledger_trade list" where
  "sample_ledger = [pnl_trade 79, pnl_trade (- 21), pnl_trade 0]"

subsection \<open>The invariant of a run\<close>

text \<open>\<open>p\<close> and \<open>d\<close> are the open and the date of a bar that follows another bar.\<close>

definition next_open :: "price_bar list \<Rightarrow> real \<Rightarrow> int \<Rightarrow> bool" where
  "next_open bars p d \<longleftrightarrow>
     (\<exists>i. Suc i < length bars \<and> p = pb_open (bars ! Suc i) \<and> d = pb_date (bars ! Suc i))"

text \<open>
  A trade is entered at the open of a following bar, and left at such an open or at the
  close of the last bar.
\<close>

definition trade_ok :: "price_bar list \<Rightarrow> ledger_trade \<Rightarrow> bool" where
  "trade_ok bars t \<longleftrightarrow>
     next_open bars (lt_entry_price t) (lt_entry_date t)
     \<and> (next_open bars (lt_exit_price t) (lt_exit_date t)
        \<or> (lt_exit_price t = pb_close (last bars) \<and> lt_exit_date t = pb_date (last bars)))"

text \<open>
  Every fill of the log belongs to a signal of the series other than HOLD and has the
  open of the bar after the signal's bar as its price.
\<close>

definition log_ok :: "price_bar list \<Rightarrow> signal list \<Rightarrow> log_entry list \<Rightarrow> bool" where
  "log_ok bars sigs lg \<longleftrightarrow>
     (\<forall>i p. Filled i p \<in> set lg \<longrightarrow>
        Suc i < length bars \<and> p = pb_open (bars ! Suc i) \<and> i < length sigs \<and> sigs ! i \<noteq> HOLD)"

definition sim_inv :: "price_bar list \<Rightarrow> signal list \<Rightarrow> sim_state \<Rightarrow> bool" where
  "sim_inv bars sigs st \<longleftrightarrow>
     log_ok bars sigs (bar_log st)
     \<and> (pos_side (pos st) \<noteq> FLAT \<longrightarrow>
          next_open bars (pos_entry_price (pos st)) (pos_entry_date (pos st)))
     \<and> (\<forall>t \<in> set (ledger st). trade_ok bars t)"

section \<open>Storage lemmas\<close>

lemma map_get_map_set: "map_get (map_set k v m) k' = (if k' = k then Some v else map_get m k')"
  by (induction m) (auto simp: map_get_def)

lemma map_set_keys: "fst ` set (map_set k v m) = insert k (fst ` set m)"
  by (induction m) auto

lemma map_set_distinct: "distinct (map fst m) \<Longrightarrow> distinct (map fst (map_set k v m))"
proof (induction m)
  case Nil
  then show ?case by simp
next
  case (Cons p ps)
  have "fst ` set (map_set k v ps) = insert k (fst ` set ps)"
    by (rule map_set_keys)
  with Cons show ?case by auto
qed

section \<open>Reading the storage\<close>

lemma map_set_mem: "(k, v) \<in> set (map_set k v m)"
  by (induction m) auto

text \<open>
  C9.  \<open>getMarketData\<close> returns, in stored order, exactly the rows held by the entries
  of the \<open>marketData\<close> map whose ticker matches; they are restricted to the rows with
  \<open>startDate \<le> date \<le> endDate\<close> (both ends included) only when both bounds are given.
  With exactly one bound given, or none, every stored row of the ticker is returned.
\<close>

theorem getMarketData_rows:
  "getMarketData s t (Some a) (Some b) =
      filter (\<lambda>d. md_ticker d = t \<and> date_ge (md_date d) a \<and> date_le (md_date d) b)
        (map snd (marketData s))
   \<and> getMarketData s t (Some a) None = filter (\<lambda>d. md_ticker d = t) (map snd (marketData s))
   \<and> getMarketData s t None (Some b) = filter (\<lambda>d. md_ticker d = t) (map snd (marketData s))
   \<and> getMarketData s t None None = filter (\<lambda>d. md_ticker d = t) (map snd (marketData s))
   \<and> (d \<in> set (getMarketData s t (Some a) (Some b)) \<longleftrightarrow>
        (\<exists>k. (k, d) \<in> set (marketData s)) \<and> md_ticker d = t
        \<and> date_ge (md_date d) a \<and> date_le (md_date d) b)
   \<and> (d \<in> set (getMarketData s t (Some a) None) \<longleftrightarrow>
        (\<exists>k. (k, d) \<in> set (marketData s)) \<and> md_ticker d = t)
   \<and> (d \<in> set (getMarketData s t None (Some b)) \<longleftrightarrow>
        (\<exists>k. (k, d) \<in> set (marketData s)) \<and> md_ticker d = t)
   \<and> date_ge (Date x) (Date lo) = (lo \<le> x) \<and> date_le (Date x) (Date hi) = (x \<le> hi)"
proof -
  have both: "getMarketData s t (Some a) (Some b) =
      filter (\<lambda>d. md_ticker d = t \<and> date_ge (md_date d) a \<and> date_le (md_date d) b)
        (map snd (marketData s))"
    by (simp add: getMarketData_def map_values_def conj_commute conj_left_commute)
  have one: "getMarketData s t (Some a) None = filter (\<lambda>d. md_ticker d = t) (map snd (marketData s))"
    "getMarketData s t None (Some b) = filter (\<lambda>d. md_ticker d = t) (map snd (marketData s))"
    "getMarketData s t None None = filter (\<lambda>d. md_ticker d = t) (map snd (marketData s))"
    by (simp_all add: getMarketData_def map_values_def)
  have stored: "d \<in> snd ` set (marketData s) \<longleftrightarrow> (\<exists>k. (k, d) \<in> set (marketData s))"
    by force
  show ?thesis
    unfolding both one using stored by simp
qed

text \<open>
  C10.  \<open>getStrategies\<close> returns, in stored order, exactly the strategies held by the
  entries of the \<open>strategies\<close> map whose \<open>isActive\<close> is true: a strategy is listed if
  and only if it is stored and active.  \<open>getStrategy\<close> looks the id up in the map
  whatever \<open>isActive\<close> says.  A strategy created with \<open>isActive\<close> true is listed; one
  created with any other \<open>isActive\<close> is not listed; either is returned by
  \<open>getStrategy\<close> under its id.
\<close>

theorem getStrategies_active_only:
  "getStrategies s = filter (\<lambda>x. st_isActive x = Some True) (map snd (strategies s))
   \<and> (x \<in> set (getStrategies s) \<longleftrightarrow>
        (\<exists>k. (k, x) \<in> set (strategies s)) \<and> st_isActive x = Some True)
   \<and> getStrategy s i = map_of (strategies s) i
   \<and> getStrategy (snd (createStrategy u now s ins)) u = Some (fst (createStrategy u now s ins))
   \<and> (ins_isActive ins = Some True \<longrightarrow>
        fst (createStrategy u now s ins) \<in> set (getStrategies (snd (createStrategy u now s ins))))
   \<and> (ins_isActive ins \<noteq> Some True \<longrightarrow>
        fst (createStrategy u now s ins) \<notin> set (getStrategies (snd (createStrategy u now s ins))))"
proof -
  have list: "getStrategies s = filter (\<lambda>x. st_isActive x = Some True) (map snd (strategies s))"
    by (simp add: getStrategies_def map_values_def)
  have stored: "x \<in> snd ` set (strategies s) \<longleftrightarrow> (\<exists>k. (k, x) \<in> set (strategies s))"
    by force
  have mem: "x \<in> set (getStrategies s) \<longleftrightarrow>
        (\<exists>k. (k, x) \<in> set (strategies s)) \<and> st_isActive x = Some True"
    unfolding list using stored by simp
  have get: "getStrategy s i = map_of (strategies s) i"
    by (simp add: getStrategy_def map_get_def)
  define c where "c = fst (createStrategy u now s ins)"
  define s' where "s' = snd (createStrategy u now s ins)"
  have act: "st_isActive c = ins_isActive ins"
    by (simp add: c_def createStrategy_def Let_def)
  have ent: "(u, c) \<in> set (strategies s')"
    by (simp add: c_def s'_def createStrategy_def Let_def map_set_mem)
  have look: "getStrategy s' u = Some c"
    by (simp add: c_def s'_def getStrategy_def createStrategy_def Let_def map_get_map_set)
  have listed: "c \<in> set (getStrategies s') \<longleftrightarrow>
        (\<exists>k. (k, c) \<in> set (strategies s')) \<and> st_isActive c = Some True"
    by (simp add: getStrategies_def map_values_def) force
  from listed ent act have yes: "ins_isActive ins = Some True \<longrightarrow> c \<in> set (getStrategies s')"
    by auto
  from listed act have no: "ins_isActive ins \<noteq> Some True \<longrightarrow> c \<notin> set (getStrategies s')"
    by auto
  from list mem get look yes no show ?thesis
    unfolding c_def s'_def by blast
qed

theorem getStrategies_active_only_witness:
  "ins_isActive sample_active = Some True
   \<and> ins_isActive sample_inactive \<noteq> Some True
   \<and> fst (createStrategy ''s1'' (Date 0) empty_storage sample_active)
        \<in> set (getStrategies (snd (createStrategy ''s1'' (Date 0) empty_storage sample_active)))
   \<and> fst (createStrategy ''s1'' (Date 0) empty_storage sample_inactive)
        \<notin> set (getStrategies (snd (createStrategy ''s1'' (Date 0) empty_storage sample_inactive)))
   \<and> getStrategy (snd (createStrategy ''s1'' (Date 0) empty_storage sample_inactive)) ''s1'' =
        Some (fst (createStrategy ''s1'' (Date 0) empty_storage sample_inactive))
   \<and> getStrategies (snd (createStrategy ''s1'' (Date 0) empty_storage sample_active)) =
        [fst (createStrategy ''s1'' (Date 0) empty_storage sample_active)]
   \<and> getStrategies (snd (createStrategy ''s1'' (Date 0) empty_storage sample_inactive)) = []"
proof -
  have a: "ins_isActive sample_active = Some True" "ins_isActive sample_inactive \<noteq> Some True"
    by (simp_all add: sample_active_def sample_inactive_def)
  note t1 = getStrategies_active_only[where u = "''s1''" and now = "Date 0"
    and s = empty_storage and ins = sample_active]
  note t2 = getStrategies_active_only[where u = "''s1''" and now = "Date 0"
    and s = empty_storage and ins = sample_inactive]
  from t1 a(1) have y: "fst (createStrategy ''s1'' (Date 0) empty_storage sample_active)
        \<in> set (getStrategies (snd (createStrategy ''s1'' (Date 0) empty_storage sample_active)))"
    by blast
  from t2 a(2) have n: "fst (createStrategy ''s1'' (Date 0) empty_storage sample_inactive)
        \<notin> set (getStrategies (snd (createStrategy ''s1'' (Date 0) empty_storage sample_inactive)))"
    by blast
  from t2 have g: "getStrategy (snd (createStrategy ''s1'' (Date 0) empty_storage sample_inactive)) ''s1'' =
        Some (fst (createStrategy ''s1'' (Date 0) empty_storage sample_inactive))"
    by blast
  have l1: "getStrategies (snd (createStrategy ''s1'' (Date 0) empty_storage sample_active)) =
        [fst (createStrategy ''s1'' (Date 0) empty_storage sample_active)]"
    by (simp add: getStrategies_def map_values_def createStrategy_def Let_def empty_storage_def
        sample_active_def)
  have l2: "getStrategies (snd (createStrategy ''s1'' (Date 0) empty_storage sample_inactive)) = []"
    by (simp add: getStrategies_def map_values_def createStrategy_def Let_def empty_storage_def
        sample_inactive_def)
  from a y n g l1 l2 show ?thesis by blast
qed

section \<open>The route handlers\<close>

lemma sublist_app_right: "sublist xs zs \<Longrightarrow> sublist xs (ys @ zs)"
  by (metis sublist_append)

lemma resolve_python: "resolve ''python'' = Inl (ReferenceError ''python'')"
  by (simp add: resolve_def run_handler_bindings_def module_bindings_def runtime_globals_def)

lemma sample_storage_b1: "getBacktest sample_storage ''b1'' = Some sample_backtest"
  by (simp add: sample_storage_def createBacktest_def getBacktest_def empty_storage_def
      sample_config_def sample_backtest_def map_get_def Let_def)

lemma sample_run_script:
  "run_script sample_runtime sample_backtest =
     Inr (run_script_text sample_runtime sample_backtest ''1970-01-01'' ''1970-01-02'')"
  by (simp add: run_script_def iso_day_def sample_runtime_def sample_backtest_def)

subsection \<open>The backend is a spawned process\<close>

lemma market_data_script_ticker: "sublist ticker (market_data_script rt ticker sd ed)"
  unfolding market_data_script_def
  by ((rule sublist_append_rightI | rule sublist_app_right)+)

lemma market_data_script_start: "sublist (template_str sd) (market_data_script rt ticker sd ed)"
  unfolding market_data_script_def
  by ((rule sublist_append_rightI | rule sublist_app_right)+)

lemma market_data_script_end: "sublist (template_str ed) (market_data_script rt ticker sd ed)"
  unfolding market_data_script_def
  by ((rule sublist_append_rightI | rule sublist_app_right)+)

lemma run_script_text_ticker: "sublist (bt_ticker b) (run_script_text rt b x y)"
  unfolding run_script_text_def
  by ((rule sublist_append_rightI | rule sublist_app_right)+)

lemma run_script_text_start: "sublist x (run_script_text rt b x y)"
  unfolding run_script_text_def
  by ((rule sublist_append_rightI | rule sublist_app_right)+)

lemma run_script_text_end: "sublist y (run_script_text rt b x y)"
  unfolding run_script_text_def
  by ((rule sublist_append_rightI | rule sublist_app_right)+)

lemma run_script_text_capital:
  "sublist (num_to_string rt (bt_initialCapital b)) (run_script_text rt b x y)"
  unfolding run_script_text_def
  by ((rule sublist_append_rightI | rule sublist_app_right)+)

lemma run_script_text_commission:
  "sublist (template_num rt (bt_commission b)) (run_script_text rt b x y)"
  unfolding run_script_text_def
  by ((rule sublist_append_rightI | rule sublist_app_right)+)

lemma run_script_text_strategy:
  "sublist (escape_quotes (json_stringify rt (bt_strategyConfig b))) (run_script_text rt b x y)"
  unfolding run_script_text_def
  by ((rule sublist_append_rightI | rule sublist_app_right)+)

lemma run_script_Inr:
  "run_script rt b = Inr script \<Longrightarrow>
   \<exists>x y. iso_day rt (bt_startDate b) = Inr x \<and> iso_day rt (bt_endDate b) = Inr y
         \<and> script = run_script_text rt b x y"
  by (auto simp: run_script_def split: sum.splits)

text \<open>Each parameter sits in the script at its own place: after its key, or in the call.\<close>

lemma market_data_script_call:
  "sublist (chr_sq @ ticker @ chr_sq @ '', '' @ chr_sq @ template_str sd @ chr_sq @ '', ''
             @ chr_sq @ template_str ed @ chr_sq @ '')'')
     (market_data_script rt ticker sd ed)"
  unfolding market_data_script_def
  by (((rule prefix_imp_sublist, (simp; fail)) | rule sublist_app_right)+)

lemma run_script_text_ticker_key:
  "sublist (chr_dq @ ''ticker'' @ chr_dq @ '': '' @ chr_dq @ bt_ticker b @ chr_dq)
     (run_script_text rt b x y)"
  unfolding run_script_text_def
  by (((rule prefix_imp_sublist, (simp; fail)) | rule sublist_app_right)+)

lemma run_script_text_start_key:
  "sublist (chr_dq @ ''start_date'' @ chr_dq @ '': '' @ chr_dq @ x @ chr_dq)
     (run_script_text rt b x y)"
  unfolding run_script_text_def
  by (((rule prefix_imp_sublist, (simp; fail)) | rule sublist_app_right)+)

lemma run_script_text_end_key:
  "sublist (chr_dq @ ''end_date'' @ chr_dq @ '': '' @ chr_dq @ y @ chr_dq)
     (run_script_text rt b x y)"
  unfolding run_script_text_def
  by (((rule prefix_imp_sublist, (simp; fail)) | rule sublist_app_right)+)

lemma run_script_text_capital_key:
  "sublist (chr_dq @ ''initial_capital'' @ chr_dq @ '': ''
             @ num_to_string rt (bt_initialCapital b) @ '','')
     (run_script_text rt b x y)"
  unfolding run_script_text_def
  by (((rule prefix_imp_sublist, (simp; fail)) | rule sublist_app_right)+)

lemma run_script_text_commission_key:
  "sublist (chr_dq @ ''commission'' @ chr_dq @ '': ''
             @ template_num rt (bt_commission b) @ '','')
     (run_script_text rt b x y)"
  unfolding run_script_text_def
  by (((rule prefix_imp_sublist, (simp; fail)) | rule sublist_app_right)+)

lemma run_script_text_strategy_key:
  "sublist (chr_dq @ ''strategy_config'' @ chr_dq @ '': ''
             @ escape_quotes (json_stringify rt (bt_strategyConfig b)) @ chr_nl)
     (run_script_text rt b x y)"
  unfolding run_script_text_def
  by (((rule prefix_imp_sublist, (simp; fail)) | rule sublist_app_right)+)

lemma run_route_spawned:
  "getBacktest s i = Some b \<Longrightarrow> run_script rt b = Inr script \<Longrightarrow>
   spawned (run_backtest_route rt s i) = [(''python3'', [''-c'', script])]"
  by (simp add: run_backtest_route_def resolve_python Let_def)

text \<open>
  C1, as the code has it.  Handling a market-data request spawns one \<open>python3 -c\<close>
  process whose script text contains the request's ticker, start date and end date,
  spliced in as they arrived as the arguments of the call.  Handling a run request for
  a stored backtest (with valid dates) spawns one \<open>python3 -c\<close> process whose script
  text contains, each after its key, the ticker, the start and end day, the capital,
  the commission and the strategy configuration of the record.
\<close>

theorem requests_spawn_python_with_spliced_parameters:
  "spawned (market_data_route rt s ticker sd ed) =
      [(''python3'', [''-c'', market_data_script rt ticker sd ed])]
   \<and> sublist ticker (market_data_script rt ticker sd ed)
   \<and> sublist (template_str sd) (market_data_script rt ticker sd ed)
   \<and> sublist (template_str ed) (market_data_script rt ticker sd ed)
   \<and> sublist (chr_sq @ ticker @ chr_sq @ '', '' @ chr_sq @ template_str sd @ chr_sq @ '', ''
               @ chr_sq @ template_str ed @ chr_sq @ '')'')
        (market_data_script rt ticker sd ed)
   \<and> (\<forall>b script. getBacktest s i = Some b \<longrightarrow> run_script rt b = Inr script \<longrightarrow>
          spawned (run_backtest_route rt s i) = [(''python3'', [''-c'', script])]
          \<and> sublist (bt_ticker b) script
          \<and> sublist (num_to_string rt (bt_initialCapital b)) script
          \<and> sublist (template_num rt (bt_commission b)) script
          \<and> sublist (escape_quotes (json_stringify rt (bt_strategyConfig b))) script
          \<and> (\<exists>x y. iso_day rt (bt_startDate b) = Inr x \<and> iso_day rt (bt_endDate b) = Inr y
                \<and> sublist x script \<and> sublist y script
                \<and> sublist (chr_dq @ ''start_date'' @ chr_dq @ '': '' @ chr_dq @ x @ chr_dq) script
                \<and> sublist (chr_dq @ ''end_date'' @ chr_dq @ '': '' @ chr_dq @ y @ chr_dq) script)
          \<and> sublist (chr_dq @ ''ticker'' @ chr_dq @ '': '' @ chr_dq @ bt_ticker b @ chr_dq) script
          \<and> sublist (chr_dq @ ''initial_capital'' @ chr_dq @ '': ''
                      @ num_to_string rt (bt_initialCapital b) @ '','') script
          \<and> sublist (chr_dq @ ''commission'' @ chr_dq @ '': ''
                      @ template_num rt (bt_commission b) @ '','') script
          \<and> sublist (chr_dq @ ''strategy_config'' @ chr_dq @ '': ''
                      @ escape_quotes (json_stringify rt (bt_strategyConfig b)) @ chr_nl) script)"
proof (intro conjI allI impI)
  show "spawned (market_data_route rt s ticker sd ed) =
      [(''python3'', [''-c'', market_data_script rt ticker sd ed])]"
    by (simp add: market_data_route_def)
next
  fix b script
  assume g: "getBacktest s i = Some b" and r: "run_script rt b = Inr script"
  from g r show "spawned (run_backtest_route rt s i) = [(''python3'', [''-c'', script])]"
    by (rule run_route_spawned)
  from r obtain x y where sc: "script = run_script_text rt b x y"
    and dx: "iso_day rt (bt_startDate b) = Inr x" and dy: "iso_day rt (bt_endDate b) = Inr y"
    using run_script_Inr by blast
  show "sublist (bt_ticker b) script"
    unfolding sc by (rule run_script_text_ticker)
  show "sublist (num_to_string rt (bt_initialCapital b)) script"
    unfolding sc by (rule run_script_text_capital)
  show "sublist (template_num rt (bt_commission b)) script"
    unfolding sc by (rule run_script_text_commission)
  show "sublist (escape_quotes (json_stringify rt (bt_strategyConfig b))) script"
    unfolding sc by (rule run_script_text_strategy)
  have "sublist x script" "sublist y script"
    unfolding sc by (rule run_script_text_start run_script_text_end)+
  moreover have "sublist (chr_dq @ ''start_date'' @ chr_dq @ '': '' @ chr_dq @ x @ chr_dq) script"
    "sublist (chr_dq @ ''end_date'' @ chr_dq @ '': '' @ chr_dq @ y @ chr_dq) script"
    unfolding sc by (rule run_script_text_start_key run_script_text_end_key)+
  ultimately
  show "\<exists>x y. iso_day rt (bt_startDate b) = Inr x \<and> iso_day rt (bt_endDate b) = Inr y
                \<and> sublist x script \<and> sublist y script
                \<and> sublist (chr_dq @ ''start_date'' @ chr_dq @ '': '' @ chr_dq @ x @ chr_dq) script
                \<and> sublist (chr_dq @ ''end_date'' @ chr_dq @ '': '' @ chr_dq @ y @ chr_dq) script"
    using dx dy by blast
  show "sublist (chr_dq @ ''ticker'' @ chr_dq @ '': '' @ chr_dq @ bt_ticker b @ chr_dq) script"
    unfolding sc by (rule run_script_text_ticker_key)
  show "sublist (chr_dq @ ''initial_capital'' @ chr_dq @ '': ''
                      @ num_to_string rt (bt_initialCapital b) @ '','') script"
    unfolding sc by (rule run_script_text_capital_key)
  show "sublist (chr_dq @ ''commission'' @ chr_dq @ '': ''
                      @ template_num rt (bt_commission b) @ '','') script"
    unfolding sc by (rule run_script_text_commission_key)
  show "sublist (chr_dq @ ''strategy_config'' @ chr_dq @ '': ''
                      @ escape_quotes (json_stringify rt (bt_strategyConfig b)) @ chr_nl) script"
    unfolding sc by (rule run_script_text_strategy_key)
qed (rule market_data_script_ticker market_data_script_start market_data_script_end
       market_data_script_call)+

theorem requests_spawn_python_witness:
  "getBacktest sample_storage ''b1'' = Some sample_backtest
   \<and> run_script sample_runtime sample_backtest =
        Inr (run_script_text sample_runtime sample_backtest ''1970-01-01'' ''1970-01-02'')
   \<and> spawned (run_backtest_route sample_runtime sample_storage ''b1'') =
        [(''python3'',
          [''-c'', run_script_text sample_runtime sample_backtest ''1970-01-01'' ''1970-01-02''])]
   \<and> sublist ''AAPL''
        (run_script_text sample_runtime sample_backtest ''1970-01-01'' ''1970-01-02'')
   \<and> iso_day sample_runtime (bt_startDate sample_backtest) = Inr ''1970-01-01''
   \<and> iso_day sample_runtime (bt_endDate sample_backtest) = Inr ''1970-01-02''
   \<and> sublist (chr_dq @ ''start_date'' @ chr_dq @ '': '' @ chr_dq @ ''1970-01-01'' @ chr_dq)
        (run_script_text sample_runtime sample_backtest ''1970-01-01'' ''1970-01-02'')
   \<and> sublist (chr_dq @ ''end_date'' @ chr_dq @ '': '' @ chr_dq @ ''1970-01-02'' @ chr_dq)
        (run_script_text sample_runtime sample_backtest ''1970-01-01'' ''1970-01-02'')"
proof -
  let ?script = "run_script_text sample_runtime sample_backtest ''1970-01-01'' ''1970-01-02''"
  have dx: "iso_day sample_runtime (bt_startDate sample_backtest) = Inr ''1970-01-01''"
    and dy: "iso_day sample_runtime (bt_endDate sample_backtest) = Inr ''1970-01-02''"
    by (simp_all add: iso_day_def sample_runtime_def sample_backtest_def)
  note t = requests_spawn_python_with_spliced_parameters
    [where rt = sample_runtime and s = sample_storage and ticker = "''AAPL''" and sd = None
       and ed = None and i = "''b1''"]
  from t sample_storage_b1 sample_run_script
  have r: "spawned (run_backtest_route sample_runtime sample_storage ''b1'') =
        [(''python3'', [''-c'', ?script])]
     \<and> sublist (bt_ticker sample_backtest) ?script
     \<and> (\<exists>x y. iso_day sample_runtime (bt_startDate sample_backtest) = Inr x
            \<and> iso_day sample_runtime (bt_endDate sample_backtest) = Inr y
            \<and> sublist (chr_dq @ ''start_date'' @ chr_dq @ '': '' @ chr_dq @ x @ chr_dq) ?script
            \<and> sublist (chr_dq @ ''end_date'' @ chr_dq @ '': '' @ chr_dq @ y @ chr_dq) ?script)"
    by blast
  then have keyed:
    "sublist (chr_dq @ ''start_date'' @ chr_dq @ '': '' @ chr_dq @ ''1970-01-01'' @ chr_dq) ?script"
    "sublist (chr_dq @ ''end_date'' @ chr_dq @ '': '' @ chr_dq @ ''1970-01-02'' @ chr_dq) ?script"
    using dx dy by auto
  have "bt_ticker sample_backtest = ''AAPL''"
    by (simp add: sample_backtest_def)
  with r keyed dx dy show ?thesis
    using sample_storage_b1 sample_run_script by simp
qed

text \<open>
  The claim of C1 fails on a plain market-data request: a \<open>python3\<close> process is
  spawned, and the call in its script is built from the request's parameters.
\<close>

theorem market_data_request_spawns_process:
  "spawned (market_data_route sample_runtime empty_storage ''AAPL'' (Some ''2024-01-01'')
      (Some ''2024-06-30'')) =
     [(''python3'', [''-c'', market_data_script sample_runtime ''AAPL'' (Some ''2024-01-01'')
      (Some ''2024-06-30'')])]
   \<and> sublist (''fetch_stock_data('' @ chr_sq @ ''AAPL'' @ chr_sq @ '', '' @ chr_sq @ ''2024-01-01'' @ chr_sq
         @ '', '' @ chr_sq @ ''2024-06-30'' @ chr_sq @ '')'')
        (market_data_script sample_runtime ''AAPL'' (Some ''2024-01-01'') (Some ''2024-06-30''))"
  apply (rule conjI)
   apply (simp add: market_data_route_def)
  apply code_simp
  done

subsection \<open>Submitting a configuration\<close>

text \<open>
  A body the schema refuses is answered with status 400 and creates no record; a body
  it takes is stored as a \<open>pending\<close> record.
\<close>

lemma create_backtest_route_refused:
  "schema_parse body = None \<Longrightarrow>
   create_backtest_route schema_parse u now s body =
     (Response 400 (ErrorMsg ''Invalid backtest configuration''), s)"
  by (simp add: create_backtest_route_def)

lemma create_backtest_route_taken:
  "schema_parse body = Some v \<Longrightarrow>
   create_backtest_route schema_parse u now s body =
     (Response 200 (BacktestBody (fst (createBacktest u now s v))),
      snd (createBacktest u now s v))
   \<and> bt_status (fst (createBacktest u now s v)) = ''pending''"
  by (simp add: create_backtest_route_def createBacktest_def Let_def)

subsection \<open>Running a stored backtest\<close>

lemma updateBacktest_status:
  "getBacktest s i = Some b \<Longrightarrow>
   status_of (snd (updateBacktest s i (status_patch v))) i = Some v"
  by (simp add: updateBacktest_def getBacktest_def status_of_def status_patch_def apply_patch_def
      map_get_map_set Let_def)

lemma run_route_existing:
  assumes "getBacktest s i = Some b"
  shows "sent (run_backtest_route rt s i) =
           Some (Response 500 (ErrorMsg ''Failed to run backtest''))"
    and "store (run_backtest_route rt s i) = snd (updateBacktest s i (status_patch ''running''))"
    and "close_listener (run_backtest_route rt s i) = False"
  using assms
  by (simp_all add: run_backtest_route_def resolve_python Let_def split: sum.splits)

text \<open>
  For every stored backtest the request is answered with status 500 by the handler's
  \<open>catch\<close>, and the record is left at \<open>running\<close>.
\<close>

lemma run_request_existing:
  assumes "getBacktest s i = Some b"
  shows "sent (run_backtest_request rt s i code out err) =
           Some (Response 500 (ErrorMsg ''Failed to run backtest''))
         \<and> status_of (store (run_backtest_request rt s i code out err)) i = Some ''running''"
  using run_route_existing[OF assms, of rt] updateBacktest_status[OF assms, of "''running''"]
  by (simp add: run_backtest_request_def Let_def)

text \<open>
  The \<open>close\<close> listener itself, had it been registered, settles the record: every
  path through it ends at \<open>completed\<close> or \<open>failed\<close>.
\<close>

lemma run_on_close_settles:
  assumes "getBacktest s i = Some b"
  shows "status_of (snd (run_on_close rt s i code out err)) i
           \<in> {Some ''completed'', Some ''failed''}"
  using assms
  by (auto simp: run_on_close_def Let_def updateBacktest_def getBacktest_def status_of_def
      status_patch_def apply_patch_def map_get_map_set split: option.splits sum.splits)

text \<open>
  C8.  A record made by \<open>createBacktest\<close> has status \<open>pending\<close> and no results.  The
  second half of the claim fails: for the stored sample backtest, whatever the child
  process does, the run request is answered with status 500 while the record's status
  is \<open>running\<close>.
\<close>

theorem run_request_leaves_running:
  "bt_status (fst (createBacktest u now s cfg)) = ''pending''
   \<and> bt_results (fst (createBacktest u now s cfg)) = None
   \<and> status_of sample_storage ''b1'' = Some ''pending''
   \<and> sent (run_backtest_request sample_runtime sample_storage ''b1'' code out err) =
        Some (Response 500 (ErrorMsg ''Failed to run backtest''))
   \<and> status_of (store (run_backtest_request sample_runtime sample_storage ''b1'' code out err))
        ''b1'' = Some ''running''"
  using run_request_existing[OF sample_storage_b1, of sample_runtime code out err]
  by (simp add: createBacktest_def status_of_def sample_storage_b1 sample_backtest_def Let_def)

section \<open>The results dashboard\<close>

lemma filteredTrades_all: "filteredTrades [] ''all'' ts = ts"
  by (simp add: filteredTrades_def matchesFilter_def matchesType_def)

text \<open>
  C7, as the code has it.  The exported CSV has the header line
  \<open>Date,Type,Entry,Exit,PnL,Return %\<close> followed by one line for each trade of the
  filtered trade list, in order, with the six fields \<open>entry_date\<close>, \<open>side\<close>,
  \<open>entry_price\<close>, \<open>exit_price\<close>, \<open>pnl\<close>, \<open>return_pct\<close>.  The filtered list is a
  subsequence of the result's trades, and is all of them when the text filter is empty
  and the type is \<open>all\<close>.
\<close>

theorem export_writes_filtered_trades:
  "handleExportCSV str f ty ts = join chr_nl (csv_lines str (filteredTrades f ty ts))
   \<and> hd (csv_lines str (filteredTrades f ty ts)) = ''Date,Type,Entry,Exit,PnL,Return %''
   \<and> tl (csv_lines str (filteredTrades f ty ts)) =
        map (\<lambda>t. join '','' [entry_date t, side t, str (entry_price t), str (exit_price t),
                              str (pnl t), str (return_pct t)])
          (filteredTrades f ty ts)
   \<and> subseq (filteredTrades f ty ts) ts
   \<and> filteredTrades [] ''all'' ts = ts"
  by (simp add: handleExportCSV_def csv_lines_def csv_header_def csv_row_def render_def
      filteredTrades_all)
     (simp add: filteredTrades_def)

text \<open>
  The claim of C7 fails with the type filter on \<open>winners\<close>: of a winning and a losing
  trade only the winning one is exported (header and one line), the header is not the
  list of the Trade record's field names, and a row has six cells for the record's
  eight fields.
\<close>

theorem export_omits_trades_and_fields:
  "handleExportCSV sample_str [] ''winners'' [win_trade, loss_trade] =
     ''Date,Type,Entry,Exit,PnL,Return %'' @ chr_nl @ ''2024-01-03,LONG,100,110,100,0.1''
   \<and> length (csv_lines sample_str (filteredTrades [] ''winners'' [win_trade, loss_trade])) = 2
   \<and> join '','' trade_fields =
        ''entry_date,exit_date,side,entry_price,exit_price,quantity,pnl,return_pct''
   \<and> length (csv_row loss_trade) = 6
   \<and> length trade_fields = 8"
  by (simp add: handleExportCSV_def filteredTrades_def matchesFilter_def matchesType_def
      win_trade_def loss_trade_def mk_trade_def csv_lines_def csv_header_def trade_fields_def
      csv_row_def render_def sample_str_def)

section \<open>The backtest engine, as specified\<close>

lemma drop_Cons_nth:
  "drop n xs = y # ys \<Longrightarrow> n < length xs \<and> xs ! n = y \<and> drop (Suc n) xs = ys"
  by (metis Cons_nth_drop_Suc drop_eq_Nil list.discI list.inject not_le)

lemma inv_mark: "sim_inv bars sigs (mark b st) = sim_inv bars sigs st"
  by (simp add: sim_inv_def mark_def)

lemma inv_open:
  assumes "sim_inv bars sigs st" "Suc i < length bars" "bars ! Suc i = nb"
    "i < length sigs" "sigs ! i \<noteq> HOLD" "sd \<noteq> FLAT"
  shows "sim_inv bars sigs (open_position rate i sd nb st)"
  using assms
  by (auto simp: sim_inv_def open_position_def Let_def log_ok_def next_open_def)

lemma inv_close:
  assumes "sim_inv bars sigs st" "Suc i < length bars" "bars ! Suc i = nb"
    "i < length sigs" "sigs ! i \<noteq> HOLD" "pos_side (pos st) \<noteq> FLAT"
  shows "sim_inv bars sigs (close_position rate i nb st)"
  using assms
  by (auto simp: sim_inv_def close_position_def close_at_def Let_def log_ok_def trade_ok_def
      flat_position_def next_open_def)

lemma inv_execute:
  assumes "sim_inv bars sigs st" "Suc i < length bars" "bars ! Suc i = nb"
    "i < length sigs" "sigs ! i = s" "sd = pos_side (pos st)"
  shows "sim_inv bars sigs (execute rate i sd s nb st)"
  using assms by (cases sd; cases s) (simp_all add: inv_open inv_close)

lemma run_bars_inv:
  "rest = drop (Suc k) bars \<Longrightarrow> ss = drop k sigs \<Longrightarrow> sim_inv bars sigs st \<Longrightarrow>
   sim_inv bars sigs (run_bars rate k rest ss st)"
proof (induction rate k rest ss st rule: run_bars.induct)
  case (1 rate i nb rest s ss st)
  from "1.prems"(1) have d: "drop (Suc i) bars = nb # rest" by simp
  from "1.prems"(2) have e: "drop i sigs = s # ss" by simp
  from drop_Cons_nth[OF d]
  have n: "Suc i < length bars" "bars ! Suc i = nb" "rest = drop (Suc (Suc i)) bars"
    by auto
  from drop_Cons_nth[OF e]
  have m: "i < length sigs" "sigs ! i = s" "ss = drop (Suc i) sigs"
    by auto
  have "sim_inv bars sigs (mark nb (execute rate i (pos_side (pos st)) s nb st))"
    unfolding inv_mark using "1.prems"(3) n(1,2) m(1,2) refl by (rule inv_execute)
  with "1.IH"[OF n(3) m(3)] show ?case by simp
qed simp_all

lemma inv_force_close:
  assumes "sim_inv bars sigs st"
  shows "sim_inv bars sigs (force_close rate (last bars) st)"
  using assms
  by (auto simp: sim_inv_def force_close_def close_at_def Let_def log_ok_def trade_ok_def
      flat_position_def)

lemma simulate_inv: "sim_inv bars sigs (simulate bars sigs cap rate)"
proof (cases bars)
  case Nil
  then show ?thesis
    by (simp add: simulate_def initial_state_def sim_inv_def log_ok_def flat_position_def)
next
  case (Cons b0 rest)
  have "sim_inv bars sigs (mark b0 (initial_state cap))"
    by (simp add: inv_mark) (simp add: initial_state_def sim_inv_def log_ok_def flat_position_def)
  moreover have "rest = drop (Suc 0) bars" "sigs = drop 0 sigs" using Cons by simp_all
  ultimately have
    "sim_inv bars sigs (run_bars rate 0 rest sigs (mark b0 (initial_state cap)))"
    using run_bars_inv by blast
  then have "sim_inv bars sigs (force_close rate (last bars)
       (run_bars rate 0 rest sigs (mark b0 (initial_state cap))))"
    by (rule inv_force_close)
  with Cons show ?thesis by (simp add: simulate_def)
qed

lemma sample_run_log:
  "bar_log (simulate sample_bars [LONG_ENTRY, EXIT, HOLD, HOLD] 1000 (1 / 100)) =
     [Filled 0 100, Filled 1 110]"
  by (simp add: simulate_def sample_bars_def mk_bar_def initial_state_def mark_def
      flat_position_def open_position_def close_position_def close_at_def force_close_def
      Let_def)

text \<open>
  The round trip of the specification's scenario D: entry at 100, exit at 110, ten
  units, commission rate 0.01, pnl 79.
\<close>

lemma sample_run_ledger:
  "ledger (simulate sample_bars [LONG_ENTRY, EXIT, HOLD, HOLD] 1000 (1 / 100)) = [sample_trade]"
  by (simp add: simulate_def sample_bars_def mk_bar_def initial_state_def mark_def
      flat_position_def open_position_def close_position_def close_at_def force_close_def
      Let_def sample_trade_def)

text \<open>
  C3.  In every run of the simulator, whatever the price series and the signal series,
  a signal of bar \<open>i\<close> that is executed is filled at the open of bar \<open>i + 1\<close>.  The
  fill price of bar \<open>i\<close>'s signal is therefore the same in any two runs on the same
  price series, whatever history the signals were generated from.  Every trade of the
  ledger is entered at the open of a bar that follows another bar, and left at such an
  open or, when the run ends with the position open, at the last bar's close.
\<close>

theorem fill_price_is_next_open:
  "(Filled i p \<in> set (bar_log (simulate bars sigs cap rate)) \<longrightarrow>
      Suc i < length bars \<and> p = pb_open (bars ! Suc i) \<and> i < length sigs \<and> sigs ! i \<noteq> HOLD)
   \<and> (Filled i p \<in> set (bar_log (simulate bars sigs cap rate)) \<longrightarrow>
      Filled i p' \<in> set (bar_log (simulate bars sigs' cap' rate')) \<longrightarrow> p' = p)
   \<and> (t \<in> set (ledger (simulate bars sigs cap rate)) \<longrightarrow>
        (\<exists>j. Suc j < length bars \<and> lt_entry_price t = pb_open (bars ! Suc j)
              \<and> lt_entry_date t = pb_date (bars ! Suc j))
        \<and> ((\<exists>j. Suc j < length bars \<and> lt_exit_price t = pb_open (bars ! Suc j)
              \<and> lt_exit_date t = pb_date (bars ! Suc j))
           \<or> (lt_exit_price t = pb_close (last bars) \<and> lt_exit_date t = pb_date (last bars))))"
  using simulate_inv[of bars sigs cap rate] simulate_inv[of bars sigs' cap' rate']
  unfolding sim_inv_def log_ok_def trade_ok_def next_open_def by blast

theorem fill_price_is_next_open_witness:
  "Filled 0 100 \<in> set (bar_log (simulate sample_bars [LONG_ENTRY, EXIT, HOLD, HOLD] 1000 (1 / 100)))
   \<and> Filled 0 100 \<in> set (bar_log (simulate sample_bars [SHORT_ENTRY, HOLD, HOLD, HOLD] 1000 (1 / 100)))
   \<and> sample_trade \<in> set (ledger (simulate sample_bars [LONG_ENTRY, EXIT, HOLD, HOLD] 1000 (1 / 100)))
   \<and> pb_open (sample_bars ! Suc 0) = 100
   \<and> pb_close (sample_bars ! 0) = 98
   \<and> (\<exists>j. Suc j < length sample_bars \<and> lt_entry_price sample_trade = pb_open (sample_bars ! Suc j))"
proof -
  have m: "Filled 0 100 \<in> set (bar_log (simulate sample_bars [LONG_ENTRY, EXIT, HOLD, HOLD] 1000 (1 / 100)))"
    by (simp add: sample_run_log)
  have m': "Filled 0 100 \<in> set (bar_log (simulate sample_bars [SHORT_ENTRY, HOLD, HOLD, HOLD] 1000 (1 / 100)))"
    by (simp add: simulate_def sample_bars_def mk_bar_def initial_state_def mark_def
      flat_position_def open_position_def close_position_def close_at_def force_close_def
      Let_def)
  have l: "sample_trade \<in> set (ledger (simulate sample_bars [LONG_ENTRY, EXIT, HOLD, HOLD] 1000 (1 / 100)))"
    by (simp add: sample_run_ledger)
  note t = fill_price_is_next_open[where i = 0 and p = 100 and bars = sample_bars
    and sigs = "[LONG_ENTRY, EXIT, HOLD, HOLD]" and cap = 1000 and rate = "1 / 100"
    and p' = 100 and sigs' = "[SHORT_ENTRY, HOLD, HOLD, HOLD]" and cap' = 1000
    and rate' = "1 / 100" and t = sample_trade]
  from t m have "100 = pb_open (sample_bars ! Suc 0)" by blast
  moreover from t l
  have "\<exists>j. Suc j < length sample_bars \<and> lt_entry_price sample_trade = pb_open (sample_bars ! Suc j)"
    by blast
  moreover have "pb_close (sample_bars ! 0) = 98"
    by (simp add: sample_bars_def mk_bar_def)
  ultimately show ?thesis using m m' l by simp
qed

lemma run_strategy_raises:
  "sc_params_valid sc \<Longrightarrow> generate_signals sc bars = Inl msg \<Longrightarrow>
   run_strategy bars sc cap rate = Inl (StrategyRuntimeError msg)"
  by (simp add: run_strategy_def)

lemma run_strategy_ok:
  "sc_params_valid sc \<Longrightarrow> generate_signals sc bars = Inr sigs \<Longrightarrow>
   \<exists>r. run_strategy bars sc cap rate = Inr r \<and> br_strategy_id r = sc_id sc"
  by (simp add: run_strategy_def Let_def)

lemma outcome_isl:
  "sc_params_valid sc \<Longrightarrow> isl (run_strategy bars sc cap rate) \<longleftrightarrow> raises sc bars"
  by (cases "generate_signals sc bars") (auto simp: run_strategy_def raises_def Let_def)

lemma count_three:
  assumes "length rs = 3" "k < 3" "\<forall>j<3. P (rs ! j) \<longleftrightarrow> j = k"
  shows "length (filter P rs) = 1 \<and> length (filter (\<lambda>r. \<not> P r) rs) = 2"
proof -
  from assms(1) obtain a b c where rs: "rs = [a, b, c]"
    by (metis (no_types, opaque_lifting) length_0_conv length_Suc_conv numeral_3_eq_3)
  from assms(3) have "P (rs ! 0) \<longleftrightarrow> 0 = k" "P (rs ! 1) \<longleftrightarrow> 1 = k" "P (rs ! 2) \<longleftrightarrow> 2 = k"
    by simp_all
  then have "P a \<longleftrightarrow> 0 = k" "P b \<longleftrightarrow> 1 = k" "P c \<longleftrightarrow> 2 = k"
    unfolding rs by simp_all
  with assms(2) show ?thesis unfolding rs by auto
qed

lemma all_less_three: "(\<forall>j<3. P j) \<longleftrightarrow> P 0 \<and> P 1 \<and> P (2::nat)"
  by (auto simp: less_Suc_eq numeral_3_eq_3 numeral_2_eq_2)

lemma sample_inputs: "check_inputs sample_bars 1000 (1 / 100) = None"
  by (simp add: check_inputs_def sample_bars_def mk_bar_def positive_prices_def)

lemma sample_raises:
  "\<not> raises buy_first_strategy sample_bars"
  "raises failing_strategy sample_bars"
  "\<not> raises hold_strategy sample_bars"
  by (simp_all add: raises_def generate_signals_def hold_strategy_def buy_first_strategy_def
      failing_strategy_def sample_bars_def upt_rec)

text \<open>
  C5.  On inputs that pass the shared checks, for three strategies with valid parameters
  of which exactly one, the \<open>k\<close>-th, raises during signal generation, \<open>compare\<close>
  returns a list of exactly three outcomes in input order: each is what \<open>run_backtest\<close>
  gives for that strategy alone, the \<open>k\<close>-th is a StrategyRuntimeError, the other two
  are the results of their strategies; one failure and two successes.
\<close>

theorem compare_isolates_failure:
  assumes inputs: "check_inputs bars cap rate = None"
    and three: "length scs = 3"
    and valid: "\<forall>j<3. sc_params_valid (scs ! j)"
    and k: "k < 3"
    and one: "\<forall>j<3. raises (scs ! j) bars \<longleftrightarrow> j = k"
  shows "\<exists>rs. compare bars scs cap rate = Inr rs
           \<and> length rs = 3
           \<and> (\<forall>j<3. rs ! j = run_backtest bars (scs ! j) cap rate)
           \<and> (\<exists>msg. rs ! k = Inl (StrategyRuntimeError msg))
           \<and> (\<forall>j<3. j \<noteq> k \<longrightarrow> (\<exists>r. rs ! j = Inr r \<and> br_strategy_id r = sc_id (scs ! j)))
           \<and> length (filter isl rs) = 1
           \<and> length (filter (\<lambda>r. \<not> isl r) rs) = 2"
proof -
  define rs where "rs = map (\<lambda>sc. run_strategy bars sc cap rate) scs"
  have c: "compare bars scs cap rate = Inr rs"
    using inputs by (simp add: compare_def rs_def)
  have len: "length rs = 3" using three by (simp add: rs_def)
  have nth: "rs ! j = run_strategy bars (scs ! j) cap rate" if "j < 3" for j
    using that three by (simp add: rs_def)
  have same: "\<forall>j<3. rs ! j = run_backtest bars (scs ! j) cap rate"
    using nth inputs by (simp add: run_backtest_def)
  have isl: "\<forall>j<3. isl (rs ! j) \<longleftrightarrow> j = k"
    using nth valid one outcome_isl by auto
  have failed: "\<exists>msg. rs ! k = Inl (StrategyRuntimeError msg)"
  proof -
    from one k have "raises (scs ! k) bars" by blast
    then obtain msg where "generate_signals (scs ! k) bars = Inl msg"
      by (auto simp: raises_def isl_def)
    with valid k have "run_strategy bars (scs ! k) cap rate = Inl (StrategyRuntimeError msg)"
      by (simp add: run_strategy_raises)
    with nth[OF k] show ?thesis by auto
  qed
  have ok: "\<forall>j<3. j \<noteq> k \<longrightarrow> (\<exists>r. rs ! j = Inr r \<and> br_strategy_id r = sc_id (scs ! j))"
  proof (intro allI impI)
    fix j assume j: "j < 3" "j \<noteq> k"
    with one have "\<not> raises (scs ! j) bars" by blast
    then obtain sigs where "generate_signals (scs ! j) bars = Inr sigs"
      by (cases "generate_signals (scs ! j) bars") (auto simp: raises_def)
    with valid j(1) obtain r where
      "run_strategy bars (scs ! j) cap rate = Inr r \<and> br_strategy_id r = sc_id (scs ! j)"
      using run_strategy_ok by blast
    with nth[OF j(1)] show "\<exists>r. rs ! j = Inr r \<and> br_strategy_id r = sc_id (scs ! j)"
      by auto
  qed
  from count_three[OF len k isl]
  have cnt: "length (filter isl rs) = 1 \<and> length (filter (\<lambda>r. \<not> isl r) rs) = 2" .
  from c len same failed ok cnt show ?thesis by blast
qed

theorem compare_isolates_failure_witness:
  "check_inputs sample_bars 1000 (1 / 100) = None
   \<and> \<not> raises buy_first_strategy sample_bars
   \<and> raises failing_strategy sample_bars
   \<and> \<not> raises hold_strategy sample_bars
   \<and> (\<exists>rs. compare sample_bars [buy_first_strategy, failing_strategy, hold_strategy]
              1000 (1 / 100) = Inr rs
         \<and> length rs = 3
         \<and> (\<exists>msg. rs ! 1 = Inl (StrategyRuntimeError msg))
         \<and> (\<exists>r. rs ! 0 = Inr r \<and> br_strategy_id r = ''buy-first'')
         \<and> (\<exists>r. rs ! 2 = Inr r \<and> br_strategy_id r = ''hold'')
         \<and> length (filter isl rs) = 1
         \<and> length (filter (\<lambda>r. \<not> isl r) rs) = 2)"
proof -
  let ?scs = "[buy_first_strategy, failing_strategy, hold_strategy]"
  have valid: "\<forall>j<3. sc_params_valid (?scs ! j)"
    by (simp add: all_less_three buy_first_strategy_def failing_strategy_def hold_strategy_def)
  have one: "\<forall>j<3. raises (?scs ! j) sample_bars \<longleftrightarrow> j = 1"
    by (simp add: all_less_three sample_raises)
  from compare_isolates_failure[OF sample_inputs _ valid _ one]
  obtain rs where rs: "compare sample_bars ?scs 1000 (1 / 100) = Inr rs" "length rs = 3"
    "\<exists>msg. rs ! 1 = Inl (StrategyRuntimeError msg)"
    "\<forall>j<3. j \<noteq> 1 \<longrightarrow> (\<exists>r. rs ! j = Inr r \<and> br_strategy_id r = sc_id (?scs ! j))"
    "length (filter isl rs) = 1" "length (filter (\<lambda>r. \<not> isl r) rs) = 2"
    by auto
  from rs(4) have both: "(\<exists>r. rs ! 0 = Inr r \<and> br_strategy_id r = sc_id buy_first_strategy)
      \<and> (\<exists>r. rs ! 2 = Inr r \<and> br_strategy_id r = sc_id hold_strategy)"
    by (simp add: all_less_three)
  then have r0: "\<exists>r. rs ! 0 = Inr r \<and> br_strategy_id r = ''buy-first''"
    by (simp add: buy_first_strategy_def)
  from both have r2: "\<exists>r. rs ! 2 = Inr r \<and> br_strategy_id r = ''hold''"
    by (simp add: hold_strategy_def)
  from rs r0 r2 sample_inputs sample_raises show ?thesis by blast
qed

subsection \<open>Rejected configurations\<close>






subsection \<open>Winners, losers and the total\<close>

lemma classes_partition:
  "length (filter is_winner xs) + length (filter (is_loser pol) xs)
     = length (filter (is_counted pol) xs)"
  by (induction xs) (auto simp: is_winner_def is_loser_def is_counted_def)

lemma mean_times_length: "mean xs * real (length xs) = sum_list xs"
  by (simp add: mean_def)

lemma dashboard_filter_classes:
  "matchesType ''winners'' t \<longleftrightarrow> is_winner (pnl t)"
  "matchesType ''losers'' t \<longleftrightarrow> is_loser ExcludedFromBoth (pnl t)"
  by (simp_all add: matchesType_def is_winner_def is_loser_def)

text \<open>
  C6.  In the trade statistics computed from any trade ledger under either policy,
  \<open>winning_trades + losing_trades = total_trades\<close>.  The winners are the trades with
  positive pnl; under the first policy the losers are the trades with negative pnl and
  a trade with zero pnl is in neither class nor in the total; under the second the
  losers are the trades with pnl at most zero and the total counts every trade.  The
  win rate, the average win, the average loss and the profit factor are taken over
  the same two classes.
\<close>

theorem winners_and_losers_add_up:
  "winning_trades (trade_metrics pol ts) + losing_trades (trade_metrics pol ts)
      = total_trades (trade_metrics pol ts)
   \<and> winning_trades (trade_metrics pol ts) = length (filter (\<lambda>t. 0 < lt_pnl t) ts)
   \<and> losing_trades (trade_metrics ExcludedFromBoth ts) = length (filter (\<lambda>t. lt_pnl t < 0) ts)
   \<and> total_trades (trade_metrics ExcludedFromBoth ts) = length (filter (\<lambda>t. lt_pnl t \<noteq> 0) ts)
   \<and> losing_trades (trade_metrics AssignedToLosing ts) = length (filter (\<lambda>t. lt_pnl t \<le> 0) ts)
   \<and> total_trades (trade_metrics AssignedToLosing ts) = length ts
   \<and> win_rate (trade_metrics pol ts) * real (total_trades (trade_metrics pol ts))
        = real (winning_trades (trade_metrics pol ts))
   \<and> avg_win (trade_metrics pol ts) * real (winning_trades (trade_metrics pol ts))
        = sum_list (filter (\<lambda>x. 0 < x) (map lt_pnl ts))
   \<and> avg_loss (trade_metrics pol ts) * real (losing_trades (trade_metrics pol ts))
        = sum_list (filter (is_loser pol) (map lt_pnl ts))
   \<and> (\<forall>pf. profit_factor (trade_metrics pol ts) = Some pf \<longrightarrow>
        pf * \<bar>sum_list (filter (is_loser pol) (map lt_pnl ts))\<bar>
          = sum_list (filter (\<lambda>x. 0 < x) (map lt_pnl ts)))"
proof -
  have w: "is_winner = (\<lambda>x. 0 < x)"
    by (rule ext) (simp add: is_winner_def)
  have le: "is_loser AssignedToLosing = (\<lambda>x. x \<le> 0)"
    by (rule ext) (auto simp: is_loser_def)
  have lt: "is_loser ExcludedFromBoth = (\<lambda>x. x < 0)"
    by (rule ext) (simp add: is_loser_def)
  have add: "winning_trades (trade_metrics pol ts) + losing_trades (trade_metrics pol ts)
      = total_trades (trade_metrics pol ts)"
    using classes_partition[of "map lt_pnl ts" pol]
    by (simp add: trade_metrics_def Let_def)
  have wins: "winning_trades (trade_metrics pol ts) = length (filter (\<lambda>t. 0 < lt_pnl t) ts)"
    by (simp add: trade_metrics_def Let_def w comp_def)
  have ex: "losing_trades (trade_metrics ExcludedFromBoth ts) = length (filter (\<lambda>t. lt_pnl t < 0) ts)"
    "total_trades (trade_metrics ExcludedFromBoth ts) = length (filter (\<lambda>t. lt_pnl t \<noteq> 0) ts)"
    by (simp_all add: trade_metrics_def Let_def lt is_counted_def comp_def)
  have asg: "losing_trades (trade_metrics AssignedToLosing ts) = length (filter (\<lambda>t. lt_pnl t \<le> 0) ts)"
    "total_trades (trade_metrics AssignedToLosing ts) = length ts"
    by (simp_all add: trade_metrics_def Let_def le is_counted_def comp_def)
  have wr: "win_rate (trade_metrics pol ts) =
      (if total_trades (trade_metrics pol ts) = 0 then 0
       else real (winning_trades (trade_metrics pol ts))
              / real (total_trades (trade_metrics pol ts)))"
    unfolding trade_metrics_def Let_def by (simp only: metrics.simps)
  have rate: "win_rate (trade_metrics pol ts) * real (total_trades (trade_metrics pol ts))
        = real (winning_trades (trade_metrics pol ts))"
  proof (cases "total_trades (trade_metrics pol ts) = 0")
    case True
    with add have "winning_trades (trade_metrics pol ts) = 0" by simp
    with True show ?thesis by simp
  next
    case False
    then show ?thesis by (simp add: wr)
  qed
  have aw: "avg_win (trade_metrics pol ts) * real (winning_trades (trade_metrics pol ts))
        = sum_list (filter (\<lambda>x. 0 < x) (map lt_pnl ts))"
    using mean_times_length[of "filter is_winner (map lt_pnl ts)"]
    by (simp add: trade_metrics_def Let_def w)
  have al: "avg_loss (trade_metrics pol ts) * real (losing_trades (trade_metrics pol ts))
        = sum_list (filter (is_loser pol) (map lt_pnl ts))"
    using mean_times_length[of "filter (is_loser pol) (map lt_pnl ts)"]
    by (simp add: trade_metrics_def Let_def)
  have pf: "\<forall>pf. profit_factor (trade_metrics pol ts) = Some pf \<longrightarrow>
        pf * \<bar>sum_list (filter (is_loser pol) (map lt_pnl ts))\<bar>
          = sum_list (filter (\<lambda>x. 0 < x) (map lt_pnl ts))"
    by (auto simp: trade_metrics_def Let_def w split: if_splits)
  from add wins ex asg rate aw al pf show ?thesis by blast
qed

theorem winners_and_losers_add_up_witness:
  "profit_factor (trade_metrics ExcludedFromBoth sample_ledger) = Some (79 / 21)
   \<and> (79 / 21) * \<bar>sum_list (filter (is_loser ExcludedFromBoth) (map lt_pnl sample_ledger))\<bar>
        = sum_list (filter (\<lambda>x. 0 < x) (map lt_pnl sample_ledger))
   \<and> winning_trades (trade_metrics ExcludedFromBoth sample_ledger) = 1
   \<and> losing_trades (trade_metrics ExcludedFromBoth sample_ledger) = 1
   \<and> total_trades (trade_metrics ExcludedFromBoth sample_ledger) = 2
   \<and> winning_trades (trade_metrics AssignedToLosing sample_ledger) = 1
   \<and> losing_trades (trade_metrics AssignedToLosing sample_ledger) = 2
   \<and> total_trades (trade_metrics AssignedToLosing sample_ledger) = 3"
proof -
  have p: "profit_factor (trade_metrics ExcludedFromBoth sample_ledger) = Some (79 / 21)"
    by (simp add: trade_metrics_def Let_def sample_ledger_def pnl_trade_def is_winner_def
        is_loser_def)
  note t = winners_and_losers_add_up[where pol = ExcludedFromBoth and ts = sample_ledger]
  from t p have q: "(79 / 21) * \<bar>sum_list (filter (is_loser ExcludedFromBoth) (map lt_pnl sample_ledger))\<bar>
        = sum_list (filter (\<lambda>x. 0 < x) (map lt_pnl sample_ledger))"
    by blast
  have c: "winning_trades (trade_metrics ExcludedFromBoth sample_ledger) = 1"
    "losing_trades (trade_metrics ExcludedFromBoth sample_ledger) = 1"
    "total_trades (trade_metrics ExcludedFromBoth sample_ledger) = 2"
    "winning_trades (trade_metrics AssignedToLosing sample_ledger) = 1"
    "losing_trades (trade_metrics AssignedToLosing sample_ledger) = 2"
    "total_trades (trade_metrics AssignedToLosing sample_ledger) = 3"
    by (simp_all add: trade_metrics_def Let_def sample_ledger_def pnl_trade_def is_winner_def
        is_loser_def is_counted_def)
  from p q c show ?thesis by blast
qed

end
